theory Spec2Isabelle
  imports Complex_Main
begin

section \<open>JavaScript numbers and strings\<close>

text \<open>
  A property declared \<open>number\<close> in TypeScript holds an IEEE double at run time: a finite
  value, one of the two infinities, or NaN. Finite values are idealised as reals, a
  decimal literal standing for the real it denotes; rounding and overflow are not
  modelled. A comparison with NaN on either side is false, and NaN and zero are the falsy
  numbers.
\<close>

datatype number = Num real | PosInf | NegInf | NaN

text \<open>\<open>x < c\<close> and \<open>x > c\<close> for a finite literal \<open>c\<close>.\<close>

fun lt :: "number \<Rightarrow> real \<Rightarrow> bool" where
  "lt (Num x) c = (x < c)"
| "lt PosInf c = False"
| "lt NegInf c = True"
| "lt NaN c = False"

fun gt :: "number \<Rightarrow> real \<Rightarrow> bool" where
  "gt (Num x) c = (x > c)"
| "gt PosInf c = True"
| "gt NegInf c = False"
| "gt NaN c = False"

text \<open>\<open>!x\<close> on a number: true for \<open>0\<close>, \<open>-0\<close> and NaN.\<close>

fun falsy :: "number \<Rightarrow> bool" where
  "falsy (Num x) = (x = 0)"
| "falsy PosInf = False"
| "falsy NegInf = False"
| "falsy NaN = True"

text \<open>
  A property that may be missing when it is read is an \<open>option\<close>; \<open>undefined\<close> is falsy
  and converts to NaN in a comparison.
\<close>

fun not_js :: "number option \<Rightarrow> bool" where
  "not_js None = True"
| "not_js (Some x) = falsy x"

fun lt_js :: "number option \<Rightarrow> real \<Rightarrow> bool" where
  "lt_js None c = False"
| "lt_js (Some x) c = lt x c"

fun gt_js :: "number option \<Rightarrow> real \<Rightarrow> bool" where
  "gt_js None c = False"
| "gt_js (Some x) c = gt x c"

text \<open>
  \<open>x + y\<close>, and \<open>x / n\<close> for a non-negative integer \<open>n\<close> (a literal or an array
  length). Dividing by zero gives NaN or an infinity.
\<close>

fun add_js :: "number \<Rightarrow> number \<Rightarrow> number" where
  "add_js (Num x) (Num y) = Num (x + y)"
| "add_js NaN y = NaN"
| "add_js x NaN = NaN"
| "add_js PosInf NegInf = NaN"
| "add_js NegInf PosInf = NaN"
| "add_js PosInf y = PosInf"
| "add_js x PosInf = PosInf"
| "add_js NegInf y = NegInf"
| "add_js x NegInf = NegInf"

fun div_js :: "number \<Rightarrow> nat \<Rightarrow> number" where
  "div_js (Num x) n =
     (if n = 0 then (if x = 0 then NaN else if 0 < x then PosInf else NegInf)
      else Num (x / real n))"
| "div_js PosInf n = PosInf"
| "div_js NegInf n = NegInf"
| "div_js NaN n = NaN"

text \<open>
  The two operations above are exact on finite values. Where the rounding of a double
  operation matters, the rounding itself (an exact result to the nearest double, or to an
  infinity on overflow) is a parameter \<open>rnd\<close>, and a double operation on finite values is
  the exact operation followed by \<open>rnd\<close>.
\<close>

fun add_rounded :: "(real \<Rightarrow> number) \<Rightarrow> number \<Rightarrow> number \<Rightarrow> number" where
  "add_rounded rnd (Num x) (Num y) = rnd (x + y)"
| "add_rounded rnd x y = add_js x y"

fun div_rounded :: "(real \<Rightarrow> number) \<Rightarrow> number \<Rightarrow> nat \<Rightarrow> number" where
  "div_rounded rnd (Num x) n = (if n = 0 then div_js (Num x) n else rnd (x / real n))"
| "div_rounded rnd x n = div_js x n"

text \<open>\<open>a || b\<close> on strings: the empty string is falsy, and so is a missing one.\<close>

fun or_str :: "string option \<Rightarrow> string \<Rightarrow> string" where
  "or_str None d = d"
| "or_str (Some s) d = (if s = [] then d else s)"

text \<open>Strings are UTF-8 byte lists; these are the two non-ASCII signs the sources use.\<close>

definition degree_sign :: string where
  "degree_sign = [CHR 0xC2, CHR 0xB0]"

definition micro_sign :: string where
  "micro_sign = [CHR 0xCE, CHR 0xBC]"

section \<open>types/simulation.ts: the request\<close>

text \<open>
  Field names carry a prefix where two interfaces share a name (\<open>temperature\<close>,
  \<open>time_hours\<close>, \<open>heating_rate\<close>), for the element symbols (\<open>comp_C\<close> for \<open>C\<close>), and
  \<open>length\<close> is \<open>length_mm\<close>. \<open>C\<close> and \<open>characteristic_dimension\<close> are declared
  \<open>number\<close>, but \<open>validateSimulationRequest\<close> guards both with \<open>!\<close>, so they may be
  missing here.
\<close>

record SteelCompositionInput =
  grade :: "string option"
  comp_C :: "number option"
  comp_Si :: number
  comp_Mn :: number
  comp_Ni :: number
  comp_Cr :: number
  comp_Mo :: number
  comp_V :: number
  comp_W :: number
  comp_Cu :: number
  comp_P :: number
  comp_Al :: number
  comp_As :: number
  comp_Ti :: number

record CarburizingConditions =
  carb_temperature :: number
  carb_time_hours :: number
  carbon_potential :: number
  carb_heating_rate :: number
  atmosphere_type :: string
  gas_flow_rate :: number
  mass_transfer_coefficient :: number
  diffusion_temperature :: "number option"
  diffusion_time :: "number option"

record QuenchingConditions =
  quench_medium :: string
  quench_temperature :: number
  heat_transfer_coefficient :: "number option"
  agitation_rate :: number
  quench_time :: number
  delay_time :: number

record TemperingConditions =
  temper_temperature :: number
  temper_time_hours :: number
  temper_heating_rate :: number
  cooling_method :: string
  multiple_tempers :: bool
  temper_cycles :: number

record PartGeometry =
  geometry_type :: string
  diameter :: "number option"
  length_mm :: "number option"
  thickness :: "number option"
  characteristic_dimension :: "number option"
  surface_area :: "number option"
  volume :: "number option"

record InitialConditions =
  initial_grain_size :: number
  initial_hardness :: "number option"
  surface_condition :: string
  prior_heat_treatment :: string

record SimulationParameters =
  spatial_points :: number
  time_step_carburizing :: number
  time_step_quenching :: number
  max_analysis_depth :: number
  convergence_tolerance :: number
  output_resolution :: string

record SimulationRequest =
  steel_composition :: SteelCompositionInput
  carburizing :: CarburizingConditions
  quenching :: QuenchingConditions
  tempering :: TemperingConditions
  geometry :: PartGeometry
  initial_conditions :: InitialConditions
  simulation_params :: SimulationParameters
  calculation_id :: "string option"

text \<open>\<open>Partial<SimulationRequest>\<close>: every member may be missing.\<close>

record PartialSimulationRequest =
  p_steel_composition :: "SteelCompositionInput option"
  p_carburizing :: "CarburizingConditions option"
  p_quenching :: "QuenchingConditions option"
  p_tempering :: "TemperingConditions option"
  p_geometry :: "PartGeometry option"
  p_initial_conditions :: "InitialConditions option"
  p_simulation_params :: "SimulationParameters option"
  p_calculation_id :: "string option"

text \<open>A full request passed where a partial one is expected.\<close>

definition as_partial :: "SimulationRequest \<Rightarrow> PartialSimulationRequest" where
  "as_partial r =
     \<lparr> p_steel_composition = Some (steel_composition r),
       p_carburizing = Some (carburizing r),
       p_quenching = Some (quenching r),
       p_tempering = Some (tempering r),
       p_geometry = Some (geometry r),
       p_initial_conditions = Some (initial_conditions r),
       p_simulation_params = Some (simulation_params r),
       p_calculation_id = calculation_id r \<rparr>"

section \<open>services/api.ts: default request and request validation\<close>

definition createDefaultSimulationRequest :: SimulationRequest where
  "createDefaultSimulationRequest =
     \<lparr> steel_composition =
         \<lparr> grade = Some [],
           comp_C = Some (Num 0.20),
           comp_Si = Num 0.25,
           comp_Mn = Num 0.80,
           comp_Ni = Num 0.55,
           comp_Cr = Num 0.50,
           comp_Mo = Num 0.20,
           comp_V = Num 0.0,
           comp_W = Num 0.0,
           comp_Cu = Num 0.0,
           comp_P = Num 0.0,
           comp_Al = Num 0.0,
           comp_As = Num 0.0,
           comp_Ti = Num 0.0 \<rparr>,
       carburizing =
         \<lparr> carb_temperature = Num 920,
           carb_time_hours = Num 6.0,
           carbon_potential = Num 1.0,
           carb_heating_rate = Num 5.0,
           atmosphere_type = ''endothermic'',
           gas_flow_rate = Num 1.0,
           mass_transfer_coefficient = Num (1 / 10 ^ 4),
           diffusion_temperature = None,
           diffusion_time = None \<rparr>,
       quenching =
         \<lparr> quench_medium = ''oil'',
           quench_temperature = Num 60,
           heat_transfer_coefficient = None,
           agitation_rate = Num 1.0,
           quench_time = Num 300,
           delay_time = Num 0 \<rparr>,
       tempering =
         \<lparr> temper_temperature = Num 170,
           temper_time_hours = Num 2.0,
           temper_heating_rate = Num 2.0,
           cooling_method = ''air'',
           multiple_tempers = False,
           temper_cycles = Num 1 \<rparr>,
       geometry =
         \<lparr> geometry_type = ''cylinder'',
           diameter = Some (Num 25.0),
           length_mm = None,
           thickness = None,
           characteristic_dimension = Some (Num 25.0),
           surface_area = None,
           volume = None \<rparr>,
       initial_conditions =
         \<lparr> initial_grain_size = Num 20.0,
           initial_hardness = None,
           surface_condition = ''machined'',
           prior_heat_treatment = ''annealed'' \<rparr>,
       simulation_params =
         \<lparr> spatial_points = Num 51,
           time_step_carburizing = Num 60,
           time_step_quenching = Num 1,
           max_analysis_depth = Num 5.0,
           convergence_tolerance = Num (1 / 10 ^ 6),
           output_resolution = ''standard'' \<rparr>,
       calculation_id = None \<rparr>"

definition err_steel_required :: string where
  "err_steel_required = ''Steel composition is required''"

definition err_carbon :: string where
  "err_carbon = ''Carbon content must be between 0.01% and 2.0%''"

definition err_carburizing_required :: string where
  "err_carburizing_required = ''Carburizing conditions are required''"

definition err_carb_temperature :: string where
  "err_carb_temperature =
     ''Carburizing temperature must be between 850'' @ degree_sign @ ''C and 1050''
       @ degree_sign @ ''C''"

definition err_carb_time :: string where
  "err_carb_time = ''Carburizing time must be between 0.5 and 24 hours''"

definition err_quenching_required :: string where
  "err_quenching_required = ''Quenching conditions are required''"

definition err_tempering_required :: string where
  "err_tempering_required = ''Tempering conditions are required''"

definition err_geometry_required :: string where
  "err_geometry_required = ''Part geometry is required''"

definition err_dimension :: string where
  "err_dimension = ''Characteristic dimension must be at least 1 mm''"

text \<open>
  Each block of \<open>validateSimulationRequest\<close> pushes onto \<open>errors\<close>; the blocks are the
  functions below, applied in source order to the growing list.
\<close>

definition check_steel_composition :: "PartialSimulationRequest \<Rightarrow> string list \<Rightarrow> string list" where
  "check_steel_composition request errors =
     (case p_steel_composition request of
        None \<Rightarrow> errors @ [err_steel_required]
      | Some sc \<Rightarrow>
          if not_js (comp_C sc) \<or> lt_js (comp_C sc) 0.01 \<or> gt_js (comp_C sc) 2.0
          then errors @ [err_carbon] else errors)"

definition check_carburizing :: "PartialSimulationRequest \<Rightarrow> string list \<Rightarrow> string list" where
  "check_carburizing request errors =
     (case p_carburizing request of
        None \<Rightarrow> errors @ [err_carburizing_required]
      | Some c \<Rightarrow>
          (let errors1 =
                 (if lt (carb_temperature c) 850 \<or> gt (carb_temperature c) 1050
                  then errors @ [err_carb_temperature] else errors)
           in if lt (carb_time_hours c) 0.5 \<or> gt (carb_time_hours c) 24
              then errors1 @ [err_carb_time] else errors1))"

definition check_quenching :: "PartialSimulationRequest \<Rightarrow> string list \<Rightarrow> string list" where
  "check_quenching request errors =
     (case p_quenching request of
        None \<Rightarrow> errors @ [err_quenching_required]
      | Some q \<Rightarrow> errors)"

definition check_tempering :: "PartialSimulationRequest \<Rightarrow> string list \<Rightarrow> string list" where
  "check_tempering request errors =
     (case p_tempering request of
        None \<Rightarrow> errors @ [err_tempering_required]
      | Some t \<Rightarrow> errors)"

definition check_geometry :: "PartialSimulationRequest \<Rightarrow> string list \<Rightarrow> string list" where
  "check_geometry request errors =
     (case p_geometry request of
        None \<Rightarrow> errors @ [err_geometry_required]
      | Some g \<Rightarrow>
          if not_js (characteristic_dimension g) \<or> lt_js (characteristic_dimension g) 1
          then errors @ [err_dimension] else errors)"

definition validateSimulationRequest :: "PartialSimulationRequest \<Rightarrow> string list" where
  "validateSimulationRequest request =
     check_geometry request
       (check_tempering request
         (check_quenching request
           (check_carburizing request
             (check_steel_composition request []))))"

section \<open>components/InputForm.tsx: the form's schema and the quench-medium handler\<close>

text \<open>
  \<open>Yup.number().min(lo).max(hi).required()\<close> accepts exactly the numbers between the two
  bounds, both included; NaN fails its type check, an infinity one of the bounds, a missing
  value \<open>required\<close>. \<open>Yup.string().required()\<close> rejects the empty string.
\<close>

fun yup_number :: "real \<Rightarrow> real \<Rightarrow> number \<Rightarrow> bool" where
  "yup_number lo hi (Num x) = (lo \<le> x \<and> x \<le> hi)"
| "yup_number lo hi PosInf = False"
| "yup_number lo hi NegInf = False"
| "yup_number lo hi NaN = False"

fun yup_number_opt :: "real \<Rightarrow> real \<Rightarrow> number option \<Rightarrow> bool" where
  "yup_number_opt lo hi None = False"
| "yup_number_opt lo hi (Some x) = yup_number lo hi x"

definition yup_string_required :: "string \<Rightarrow> bool" where
  "yup_string_required s = (s \<noteq> [])"

definition schema_steel_composition :: "SteelCompositionInput \<Rightarrow> bool" where
  "schema_steel_composition sc =
     (yup_number_opt 0.01 2.0 (comp_C sc) \<and>
      yup_number 0.0 2.0 (comp_Si sc) \<and>
      yup_number 0.0 3.0 (comp_Mn sc) \<and>
      yup_number 0.0 5.0 (comp_Ni sc) \<and>
      yup_number 0.0 3.0 (comp_Cr sc) \<and>
      yup_number 0.0 1.0 (comp_Mo sc) \<and>
      yup_number 0.0 0.5 (comp_V sc) \<and>
      yup_number 0.0 1.0 (comp_W sc) \<and>
      yup_number 0.0 1.0 (comp_Cu sc) \<and>
      yup_number 0.0 0.1 (comp_P sc) \<and>
      yup_number 0.0 0.1 (comp_Al sc) \<and>
      yup_number 0.0 0.1 (comp_As sc) \<and>
      yup_number 0.0 0.1 (comp_Ti sc))"

definition schema_carburizing :: "CarburizingConditions \<Rightarrow> bool" where
  "schema_carburizing c =
     (yup_number 850 1050 (carb_temperature c) \<and>
      yup_number 0.5 24 (carb_time_hours c) \<and>
      yup_number 0.6 1.5 (carbon_potential c) \<and>
      yup_number 1.0 20.0 (carb_heating_rate c) \<and>
      yup_number 0.1 5.0 (gas_flow_rate c) \<and>
      yup_number (1 / 10 ^ 5) (5 / 10 ^ 4) (mass_transfer_coefficient c))"

definition schema_quenching :: "QuenchingConditions \<Rightarrow> bool" where
  "schema_quenching q =
     (yup_string_required (quench_medium q) \<and>
      yup_number 20 150 (quench_temperature q) \<and>
      yup_number 0.0 3.0 (agitation_rate q) \<and>
      yup_number 60 1800 (quench_time q) \<and>
      yup_number 0 600 (delay_time q))"

definition schema_tempering :: "TemperingConditions \<Rightarrow> bool" where
  "schema_tempering t =
     (yup_number 100 700 (temper_temperature t) \<and>
      yup_number 0.5 8.0 (temper_time_hours t) \<and>
      yup_number 0.5 10.0 (temper_heating_rate t) \<and>
      yup_number 1 3 (temper_cycles t))"

definition schema_geometry :: "PartGeometry \<Rightarrow> bool" where
  "schema_geometry g =
     (yup_string_required (geometry_type g) \<and>
      yup_number_opt 1 100 (characteristic_dimension g))"

definition schema_initial_conditions :: "InitialConditions \<Rightarrow> bool" where
  "schema_initial_conditions i = yup_number 5.0 200.0 (initial_grain_size i)"

definition schema_simulation_params :: "SimulationParameters \<Rightarrow> bool" where
  "schema_simulation_params p =
     (yup_number 21 201 (spatial_points p) \<and>
      yup_number 1.0 20.0 (max_analysis_depth p))"

text \<open>\<open>validationSchema\<close> accepts the form's values.\<close>

definition validationSchema :: "SimulationRequest \<Rightarrow> bool" where
  "validationSchema values =
     (schema_steel_composition (steel_composition values) \<and>
      schema_carburizing (carburizing values) \<and>
      schema_quenching (quenching values) \<and>
      schema_tempering (tempering values) \<and>
      schema_geometry (geometry values) \<and>
      schema_initial_conditions (initial_conditions values) \<and>
      schema_simulation_params (simulation_params values))"

text \<open>
  The quench-media table as the form receives it: a plain object whose own properties
  are the media. The handler tests the prop, its \<open>media\<close> member and the entry's
  \<open>heat_transfer_coefficient_range\<close> before use, so each of them may be missing.
\<close>

record QuenchMedium =
  medium_name :: string
  typical_temperature :: number
  heat_transfer_coefficient_range :: "(number \<times> number) option"
  medium_description :: string
  medium_applications :: "string list"

record QuenchMediaResponse =
  media :: "(string \<rightharpoonup> QuenchMedium) option"

text \<open>
  \<open>object[key]\<close> on a plain object finds an own property, or else a property that every
  object inherits from \<open>Object.prototype\<close>, or else nothing. The inherited values are
  functions (for \<open>__proto__\<close>, the prototype object): truthy, and without any of the
  members of a \<open>QuenchMedium\<close>.
\<close>

definition Object_prototype_properties :: "string list" where
  "Object_prototype_properties =
     [''constructor'', ''hasOwnProperty'', ''isPrototypeOf'', ''propertyIsEnumerable'',
      ''toLocaleString'', ''toString'', ''valueOf'', ''__proto__'', ''__defineGetter__'',
      ''__defineSetter__'', ''__lookupGetter__'', ''__lookupSetter__'']"

datatype 'a property = Own 'a | Inherited | Absent

definition get_property :: "(string \<rightharpoonup> 'a) \<Rightarrow> string \<Rightarrow> 'a property" where
  "get_property object key =
     (case object key of
        Some v \<Rightarrow> Own v
      | None \<Rightarrow> if key \<in> set Object_prototype_properties then Inherited else Absent)"

text \<open>
  A call \<open>formik.setFieldValue(path, value)\<close>. The handler's effect on the form is the
  list of its calls, in order; Formik writes each value at the named path and nowhere
  else.
\<close>

datatype field_value = StringValue string | NumberValue number | UndefinedValue

type_synonym setFieldValue_call = "string \<times> field_value"

text \<open>
  \<open>rnd\<close> is the rounding of double arithmetic, see above: \<open>avgHTC\<close> is the double sum of
  the two bounds, divided by 2 in doubles.
\<close>

definition handleQuenchMediumChange ::
  "(real \<Rightarrow> number) \<Rightarrow> QuenchMediaResponse option \<Rightarrow> string \<Rightarrow> setFieldValue_call list" where
  "handleQuenchMediumChange rnd quenchMedia medium =
     (if medium = [] then []
      else case quenchMedia of
        None \<Rightarrow> []
      | Some qm \<Rightarrow>
          (case media qm of
             None \<Rightarrow> []
           | Some table \<Rightarrow>
               (case get_property table medium of
                  Absent \<Rightarrow> []
                | Inherited \<Rightarrow>
                    [(''quenching.quench_medium'', StringValue medium),
                     (''quenching.quench_temperature'', UndefinedValue)]
                | Own mediaData \<Rightarrow>
                    [(''quenching.quench_medium'', StringValue medium),
                     (''quenching.quench_temperature'',
                      NumberValue (typical_temperature mediaData))] @
                    (case heat_transfer_coefficient_range mediaData of
                       None \<Rightarrow> []
                     | Some (lo, hi) \<Rightarrow>
                         (let avgHTC = div_rounded rnd (add_rounded rnd lo hi) 2
                          in [(''quenching.heat_transfer_coefficient'',
                               NumberValue avgHTC)])))))"

section \<open>types/simulation.ts: the results\<close>

typedecl any

record PropertyProfile =
  distance_mm :: "number list"
  carbon_profile :: "number list"
  hardness_hv :: "number list"
  hardness_hrc :: "number list"
  grain_size :: "number list"
  phase_fractions :: "string \<rightharpoonup> number list"

record ThermalProfile =
  time_carburizing :: "number list"
  temperature_carburizing :: "number list"
  time_quenching :: "number list"
  temperature_quenching :: "number list"
  cooling_rate :: number
  surface_heat_flux :: "number list"

record CaseDepthResults =
  case_depth_04_carbon :: number
  case_depth_03_carbon :: number
  case_depth_50_hrc :: number
  case_depth_55_hrc :: number
  effective_case_depth :: number
  total_case_depth :: number

record ProcessMetrics =
  surface_carbon :: number
  surface_hardness_hv :: number
  surface_hardness_hrc :: number
  core_hardness_hv :: number
  core_hardness_hrc :: number
  hardness_gradient :: number
  carbon_gradient :: number
  distortion_risk :: string
  grain_size_surface :: number
  grain_size_core :: number

record CriticalTemperatures =
  ae3_temperature :: number
  ae1_temperature :: number
  ms_temperature_core :: number
  ms_temperature_surface :: number
  bs_temperature :: number

record QualityAssessment =
  gear_requirements_met :: bool
  surface_hardness_ok :: bool
  case_depth_ok :: bool
  core_hardness_ok :: bool
  grain_size_ok :: bool
  overall_grade :: string
  recommendations :: "string list"

record SimulationResults =
  result_calculation_id :: string
  timestamp :: string
  computation_time :: number
  property_profiles :: PropertyProfile
  thermal_profiles :: ThermalProfile
  case_depth_results :: CaseDepthResults
  process_metrics :: ProcessMetrics
  critical_temperatures :: CriticalTemperatures
  quality_assessment :: QualityAssessment
  input_summary :: "string \<rightharpoonup> any"
  warnings :: "string list"
  errors :: "string list"
  validation_status :: string

record 'a ApiResponse =
  data :: 'a
  status :: number
  message :: "string option"

record ValidationResponse =
  valid :: bool
  validation_error :: "string option"
  validation_warnings :: "string list"

section \<open>App.tsx: submitting a simulation\<close>

text \<open>
  A value thrown by the API layer or by \<open>new Error(msg)\<close>: \<open>simulationService\<close> rejects
  with the \<open>Error\<close> object that \<open>handleApiError\<close> builds. The handlers read
  \<open>err.response?.data?.detail\<close> and \<open>err.message\<close> from it.
\<close>

record js_error =
  response_detail :: "string option"
  error_message :: "string option"

definition new_Error :: "string \<Rightarrow> js_error" where
  "new_Error msg = \<lparr> response_detail = None, error_message = Some msg \<rparr>"

datatype AlertColor = success | info | warning | error

text \<open>What the handler does to the outside, in the order it does it.\<close>

datatype effect =
  ValidateInputs SimulationRequest
| RunSimulation SimulationRequest
| ShowNotification string AlertColor

record AppState =
  currentTab :: nat
  simulationData :: "SimulationRequest option"
  results :: "SimulationResults option"
  loading :: bool
  app_error :: "string option"

text \<open>
  An awaited call either rejects (\<open>Inl\<close>) or resolves (\<open>Inr\<close>); the two endpoints of
  \<open>simulationService\<close> are parameters of the handler. The handler's own parameter
  (\<open>data\<close> in the source) is \<open>request\<close> here, \<open>data\<close> being the member of
  \<open>ApiResponse\<close>.
\<close>

type_synonym validateInputs_endpoint =
  "SimulationRequest \<Rightarrow> js_error + ValidationResponse ApiResponse"

type_synonym runSimulation_endpoint =
  "SimulationRequest \<Rightarrow> js_error + SimulationResults ApiResponse"

text \<open>The \<open>finally\<close> block.\<close>

definition submit_finally :: "AppState \<times> effect list \<Rightarrow> AppState \<times> effect list" where
  "submit_finally st = (case st of (s, tr) \<Rightarrow> (s\<lparr>loading := False\<rparr>, tr))"

text \<open>The \<open>catch\<close> block, followed by \<open>finally\<close>.\<close>

definition submit_catch :: "js_error \<Rightarrow> AppState \<Rightarrow> effect list \<Rightarrow> AppState \<times> effect list" where
  "submit_catch err s tr =
     (let errorMessage =
            or_str (response_detail err) (or_str (error_message err) ''Simulation failed'')
      in submit_finally
           (s\<lparr>app_error := Some errorMessage\<rparr>, tr @ [ShowNotification errorMessage error]))"

definition handleSimulationSubmit ::
  "validateInputs_endpoint \<Rightarrow> runSimulation_endpoint \<Rightarrow> SimulationRequest \<Rightarrow> AppState
     \<Rightarrow> AppState \<times> effect list" where
  "handleSimulationSubmit validateInputs runSimulation request s =
     (let s1 = s\<lparr>loading := True, app_error := None\<rparr>;
          tr1 = [ShowNotification ''Starting simulation...'' info, ValidateInputs request]
      in case validateInputs request of
           Inl err \<Rightarrow> submit_catch err s1 tr1
         | Inr validationResponse \<Rightarrow>
             if \<not> valid (data validationResponse)
             then submit_catch
                    (new_Error (or_str (validation_error (data validationResponse))
                                  ''Invalid input parameters'')) s1 tr1
             else
               (let tr2 = tr1 @ map (\<lambda>w. ShowNotification w warning)
                                  (validation_warnings (data validationResponse));
                    tr3 = tr2 @ [RunSimulation request]
                in case runSimulation request of
                     Inl err \<Rightarrow> submit_catch err s1 tr3
                   | Inr response \<Rightarrow>
                       submit_finally
                         (s1\<lparr>results := Some (data response),
                             simulationData := Some request,
                             currentTab := 1\<rparr>,
                          tr3 @ [ShowNotification ''Simulation completed successfully!''
                                   success])))"

section \<open>components/QualityReport.tsx: the quality score\<close>

record QualityMetric =
  category :: string
  metric_value :: number
  target :: string
  metric_status :: bool
  score :: number
  unit :: string

definition qualityMetrics :: "SimulationResults option \<Rightarrow> QualityMetric list option" where
  "qualityMetrics res =
     (case res of
        None \<Rightarrow> None
      | Some r \<Rightarrow>
          Some
            [\<lparr> category = ''Surface Hardness'',
               metric_value = surface_hardness_hrc (process_metrics r),
               target = ''58-65 HRC'',
               metric_status = surface_hardness_ok (quality_assessment r),
               score = (if surface_hardness_ok (quality_assessment r) then Num 100 else Num 70),
               unit = ''HRC'' \<rparr>,
             \<lparr> category = ''Case Depth'',
               metric_value = case_depth_04_carbon (case_depth_results r),
               target = ''0.8-1.5 mm'',
               metric_status = case_depth_ok (quality_assessment r),
               score = (if case_depth_ok (quality_assessment r) then Num 100 else Num 75),
               unit = ''mm'' \<rparr>,
             \<lparr> category = ''Core Hardness'',
               metric_value = core_hardness_hrc (process_metrics r),
               target = ''25-35 HRC'',
               metric_status = core_hardness_ok (quality_assessment r),
               score = (if core_hardness_ok (quality_assessment r) then Num 100 else Num 65),
               unit = ''HRC'' \<rparr>,
             \<lparr> category = ''Grain Size'',
               metric_value = grain_size_surface (process_metrics r),
               target = ''< 50 '' @ micro_sign @ ''m'',
               metric_status = grain_size_ok (quality_assessment r),
               score = (if grain_size_ok (quality_assessment r) then Num 100 else Num 80),
               unit = micro_sign @ ''m'' \<rparr>])"

text \<open>
  The scores are integers between 65 and 100; their sums and the quotient by the number
  of metrics are exact in doubles, so the exact operations stand for the double ones.
\<close>

definition overallScore :: "QualityMetric list option \<Rightarrow> number" where
  "overallScore metrics =
     (case metrics of
        None \<Rightarrow> Num 0
      | Some ms \<Rightarrow>
          div_js (foldl (\<lambda>sum metric. add_js sum (score metric)) (Num 0) ms) (length ms))"

section \<open>components/MaterialComparison.tsx: running a comparison\<close>


record MaterialComparisonResult =
  steel_grade :: string
  grade_results :: SimulationResults
  relative_performance :: "string \<rightharpoonup> number"









section \<open>CompositionModel\<close>

datatype element =
  El_C | El_Si | El_Mn | El_Ni | El_Cr | El_Mo | El_V | El_W | El_Cu | El_P | El_Al
| El_As | El_Ti

definition elements :: "element list" where
  "elements =
     [El_C, El_Si, El_Mn, El_Ni, El_Cr, El_Mo, El_V, El_W, El_Cu, El_P, El_Al, El_As, El_Ti]"

text \<open>The spec's SteelComposition: element symbol to weight-percent.\<close>

type_synonym SteelComposition = "element \<Rightarrow> real"

datatype failure = InvalidComposition | InvalidProcessParameters

record CriticalTemps =
  AE3 :: real
  AE1 :: real
  Ms_core :: real
  Ms_surface :: real
  Bs :: real

text \<open>
  The calibrated data the spec leaves to an external constants dataset: the valid range
  of each element, the constant term and per-element coefficients of the AE3 and AE1
  regressions, and the Ms and Bs regressions.
\<close>

record CompositionConstants =
  valid_range :: "element \<Rightarrow> real \<times> real"
  ae3_constant :: real
  ae3_coefficient :: "element \<Rightarrow> real"
  ae1_constant :: real
  ae1_coefficient :: "element \<Rightarrow> real"
  ms_core_regression :: "SteelComposition \<Rightarrow> real"
  ms_surface_regression :: "SteelComposition \<Rightarrow> real"
  bs_regression :: "SteelComposition \<Rightarrow> real"

definition in_valid_range :: "CompositionConstants \<Rightarrow> SteelComposition \<Rightarrow> element \<Rightarrow> bool" where
  "in_valid_range k wt e = (fst (valid_range k e) \<le> wt e \<and> wt e \<le> snd (valid_range k e))"

definition valid_composition :: "CompositionConstants \<Rightarrow> SteelComposition \<Rightarrow> bool" where
  "valid_composition k wt = list_all (in_valid_range k wt) elements"

definition linear_combination :: "real \<Rightarrow> (element \<Rightarrow> real) \<Rightarrow> SteelComposition \<Rightarrow> real" where
  "linear_combination c0 coeff wt = c0 + sum_list (map (\<lambda>e. coeff e * wt e) elements)"

definition ae3_regression :: "CompositionConstants \<Rightarrow> SteelComposition \<Rightarrow> real" where
  "ae3_regression k wt = linear_combination (ae3_constant k) (ae3_coefficient k) wt"

definition ae1_regression :: "CompositionConstants \<Rightarrow> SteelComposition \<Rightarrow> real" where
  "ae1_regression k wt = linear_combination (ae1_constant k) (ae1_coefficient k) wt"

text \<open>
  Modelled from the spec: \<open>criticalTemperatures\<close> of the CompositionModel (the backend that
  computes it is not among the sources). AE3 and AE1 are linear combinations of the
  weight-percents; the call fails with InvalidComposition when an element is outside its
  valid range or when the combination yields AE3 \<le> AE1.
\<close>

definition criticalTemperatures ::
  "CompositionConstants \<Rightarrow> SteelComposition \<Rightarrow> failure + CriticalTemps" where
  "criticalTemperatures k wt =
     (if \<not> valid_composition k wt then Inl InvalidComposition
      else if ae3_regression k wt \<le> ae1_regression k wt then Inl InvalidComposition
      else Inr \<lparr> AE3 = ae3_regression k wt,
                 AE1 = ae1_regression k wt,
                 Ms_core = ms_core_regression k wt,
                 Ms_surface = ms_surface_regression k wt,
                 Bs = bs_regression k wt \<rparr>)"

text \<open>The element ranges the input form documents (\<open>validationSchema.steel_composition\<close>).\<close>

fun form_range :: "element \<Rightarrow> real \<times> real" where
  "form_range El_C = (0.01, 2.0)"
| "form_range El_Si = (0.0, 2.0)"
| "form_range El_Mn = (0.0, 3.0)"
| "form_range El_Ni = (0.0, 5.0)"
| "form_range El_Cr = (0.0, 3.0)"
| "form_range El_Mo = (0.0, 1.0)"
| "form_range El_V = (0.0, 0.5)"
| "form_range El_W = (0.0, 1.0)"
| "form_range El_Cu = (0.0, 1.0)"
| "form_range El_P = (0.0, 0.1)"
| "form_range El_Al = (0.0, 0.1)"
| "form_range El_As = (0.0, 0.1)"
| "form_range El_Ti = (0.0, 0.1)"

section \<open>Concrete inputs\<close>

text \<open>Variations of the default request.\<close>

definition request_zero_carburizing_time :: SimulationRequest where
  "request_zero_carburizing_time =
     createDefaultSimulationRequest
       \<lparr>carburizing :=
          (carburizing createDefaultSimulationRequest)\<lparr>carb_time_hours := Num 0\<rparr>\<rparr>"

definition request_cold_carburizing :: SimulationRequest where
  "request_cold_carburizing =
     createDefaultSimulationRequest
       \<lparr>carburizing :=
          (carburizing createDefaultSimulationRequest)\<lparr>carb_temperature := Num 800\<rparr>\<rparr>"

definition request_NaN_carbon :: SimulationRequest where
  "request_NaN_carbon =
     createDefaultSimulationRequest
       \<lparr>steel_composition :=
          (steel_composition createDefaultSimulationRequest)\<lparr>comp_C := Some NaN\<rparr>\<rparr>"

definition request_hot_quench :: SimulationRequest where
  "request_hot_quench =
     createDefaultSimulationRequest
       \<lparr>quenching :=
          (quenching createDefaultSimulationRequest)\<lparr>quench_temperature := Num 500\<rparr>,
        tempering :=
          (tempering createDefaultSimulationRequest)\<lparr>temper_temperature := Num 9999\<rparr>\<rparr>"

text \<open>A quench-media table with an entry under \<open>oil\<close> and one under the empty key.\<close>

definition oil_medium :: QuenchMedium where
  "oil_medium =
     \<lparr> medium_name = ''Quench oil'',
       typical_temperature = Num 80,
       heat_transfer_coefficient_range = Some (Num 500, Num 1500),
       medium_description = ''Conventional quench oil'',
       medium_applications = [''gears''] \<rparr>"

definition unnamed_medium :: QuenchMedium where
  "unnamed_medium =
     \<lparr> medium_name = ''Water'',
       typical_temperature = Num 25,
       heat_transfer_coefficient_range = Some (Num 2000, Num 4000),
       medium_description = ''Still water'',
       medium_applications = [] \<rparr>"

definition example_table :: "string \<rightharpoonup> QuenchMedium" where
  "example_table = [''oil'' \<mapsto> oil_medium, [] \<mapsto> unnamed_medium]"

definition example_media :: QuenchMediaResponse where
  "example_media = \<lparr> media = Some example_table \<rparr>"

text \<open>
  The component states right after mounting (the \<open>useState\<close> initial values). The
  comparison's initial process conditions are, value for value, those of the default
  request.
\<close>

definition initial_AppState :: AppState where
  "initial_AppState =
     \<lparr> currentTab = 0, simulationData = None, results = None, loading = False,
       app_error = None \<rparr>"


text \<open>A result whose case depth misses its band while the other three checks pass.\<close>

definition example_results :: SimulationResults where
  "example_results =
     \<lparr> result_calculation_id = ''calc-1'',
       timestamp = ''2024-12-01T00:00:00'',
       computation_time = Num 1.5,
       property_profiles =
         \<lparr> distance_mm = [Num 0, Num 0.1],
           carbon_profile = [Num 0.8, Num 0.75],
           hardness_hv = [Num 720, Num 700],
           hardness_hrc = [Num 60, Num 59],
           grain_size = [Num 22, Num 22],
           phase_fractions = [''martensite'' \<mapsto> [Num 0.9, Num 0.88]] \<rparr>,
       thermal_profiles =
         \<lparr> time_carburizing = [Num 0, Num 60],
           temperature_carburizing = [Num 20, Num 920],
           time_quenching = [Num 0, Num 1],
           temperature_quenching = [Num 920, Num 800],
           cooling_rate = Num 120,
           surface_heat_flux = [Num 0, Num 0] \<rparr>,
       case_depth_results =
         \<lparr> case_depth_04_carbon = Num 0.6,
           case_depth_03_carbon = Num 0.9,
           case_depth_50_hrc = Num 0.7,
           case_depth_55_hrc = Num 0.5,
           effective_case_depth = Num 0.7,
           total_case_depth = Num 0.9 \<rparr>,
       process_metrics =
         \<lparr> surface_carbon = Num 0.8,
           surface_hardness_hv = Num 720,
           surface_hardness_hrc = Num 60,
           core_hardness_hv = Num 320,
           core_hardness_hrc = Num 32,
           hardness_gradient = Num 10,
           carbon_gradient = Num 0.5,
           distortion_risk = ''low'',
           grain_size_surface = Num 22,
           grain_size_core = Num 21 \<rparr>,
       critical_temperatures =
         \<lparr> ae3_temperature = Num 830,
           ae1_temperature = Num 720,
           ms_temperature_core = Num 400,
           ms_temperature_surface = Num 200,
           bs_temperature = Num 550 \<rparr>,
       quality_assessment =
         \<lparr> gear_requirements_met = False,
           surface_hardness_ok = True,
           case_depth_ok = False,
           core_hardness_ok = True,
           grain_size_ok = True,
           overall_grade = ''B'',
           recommendations = [''Increase carburizing time''] \<rparr>,
       input_summary = Map.empty,
       warnings = [],
       errors = [],
       validation_status = ''passed'' \<rparr>"

text \<open>
  Validation endpoints that find every request invalid or valid, simulation endpoints
  and comparison callbacks that always reject or always resolve, and comparison states
  with one and with two grades selected.
\<close>

definition rejecting_validateInputs :: validateInputs_endpoint where
  "rejecting_validateInputs request =
     Inr \<lparr> data = \<lparr> valid = False,
                    validation_error = Some ''Carbon potential below core carbon'',
                    validation_warnings = [''Long carburizing time''] \<rparr>,
           status = Num 200,
           message = None \<rparr>"

definition failing_runSimulation :: runSimulation_endpoint where
  "failing_runSimulation request = Inl (new_Error ''Internal server error'')"

definition succeeding_runSimulation :: runSimulation_endpoint where
  "succeeding_runSimulation request =
     Inr \<lparr> data = example_results, status = Num 200, message = None \<rparr>"








text \<open>
  A coarse rounding for concrete evaluation: it overflows to an infinity from
  \<open>2 ^ 1024\<close> on and leaves smaller values as they are.
\<close>

definition overflowing :: "real \<Rightarrow> number" where
  "overflowing x =
     (if 2 ^ 1024 \<le> x then PosInf else if x \<le> - (2 ^ 1024) then NegInf else Num x)"

text \<open>
  Illustrative regression constants (round numbers of the usual magnitude, not the
  calibrated dataset), with the form's element ranges, and two compositions inside those
  ranges: the reference steel of the default request, and a steel at the upper carbon and
  chromium bounds.
\<close>

fun example_ae3_coefficient :: "element \<Rightarrow> real" where
  "example_ae3_coefficient El_C = - 200"
| "example_ae3_coefficient El_Si = 45"
| "example_ae3_coefficient El_Ni = - 15"
| "example_ae3_coefficient El_Mo = 30"
| "example_ae3_coefficient El_V = 100"
| "example_ae3_coefficient El_W = 13"
| "example_ae3_coefficient e = 0"

fun example_ae1_coefficient :: "element \<Rightarrow> real" where
  "example_ae1_coefficient El_Si = 29"
| "example_ae1_coefficient El_Mn = - 11"
| "example_ae1_coefficient El_Ni = - 17"
| "example_ae1_coefficient El_Cr = 17"
| "example_ae1_coefficient e = 0"

definition example_constants :: CompositionConstants where
  "example_constants =
     \<lparr> valid_range = form_range,
       ae3_constant = 910,
       ae3_coefficient = example_ae3_coefficient,
       ae1_constant = 723,
       ae1_coefficient = example_ae1_coefficient,
       ms_core_regression = (\<lambda>wt. 539 - 423 * wt El_C),
       ms_surface_regression = (\<lambda>wt. 539 - 423 * wt El_C),
       bs_regression = (\<lambda>wt. 830 - 270 * wt El_C) \<rparr>"

fun reference_steel :: SteelComposition where
  "reference_steel El_C = 0.20"
| "reference_steel El_Si = 0.25"
| "reference_steel El_Mn = 0.80"
| "reference_steel El_Ni = 0.55"
| "reference_steel El_Cr = 0.50"
| "reference_steel El_Mo = 0.20"
| "reference_steel e = 0"

fun high_carbon_chromium_steel :: SteelComposition where
  "high_carbon_chromium_steel El_C = 2.0"
| "high_carbon_chromium_steel El_Cr = 3.0"
| "high_carbon_chromium_steel e = 0"

section \<open>Properties\<close>

subsection \<open>Submitting a simulation\<close>

lemma or_str_nonempty: "d \<noteq> [] \<Longrightarrow> or_str x d \<noteq> []"
  by (cases x) auto

lemma submit_catch_new_Error:
  "msg \<noteq> [] \<Longrightarrow>
     submit_catch (new_Error msg) s tr =
       (s\<lparr>app_error := Some msg, loading := False\<rparr>, tr @ [ShowNotification msg error])"
  by (simp add: submit_catch_def submit_finally_def new_Error_def)

lemma handleSimulationSubmit_invalid:
  assumes "validateInputs request = Inr vr" and "\<not> valid (data vr)"
  shows "handleSimulationSubmit validateInputs runSimulation request s =
     (s\<lparr>loading := False,
        app_error := Some (or_str (validation_error (data vr)) ''Invalid input parameters'')\<rparr>,
      [ShowNotification ''Starting simulation...'' info, ValidateInputs request,
       ShowNotification (or_str (validation_error (data vr)) ''Invalid input parameters'') error])"
proof -
  have "or_str (validation_error (data vr)) ''Invalid input parameters'' \<noteq> []"
    by (rule or_str_nonempty) simp
  then show ?thesis
    using assms by (simp add: handleSimulationSubmit_def submit_catch_new_Error)
qed

text \<open>The simulation endpoint is called only after validation resolved with \<open>valid\<close>.\<close>

lemma runSimulation_called_iff:
  "RunSimulation d \<in> set (snd (handleSimulationSubmit validateInputs runSimulation request s))
     \<longleftrightarrow> d = request \<and> (\<exists>vr. validateInputs request = Inr vr \<and> valid (data vr))"
  by (auto simp add: handleSimulationSubmit_def submit_catch_def submit_finally_def Let_def
      split: sum.splits)

text \<open>
  C1. When the validation step resolves with \<open>valid = false\<close>, the handler raises an
  error, shows it to the user (error state and notification) and never calls
  \<open>runSimulation\<close>: the only endpoint call is \<open>validateInputs\<close>, the outcome does not
  depend on the simulation endpoint, and the stored results are unchanged.
\<close>

theorem invalid_request_never_runs_simulation:
  assumes "validateInputs request = Inr vr" and "\<not> valid (data vr)"
  shows
    "(\<forall>d. RunSimulation d
        \<notin> set (snd (handleSimulationSubmit validateInputs runSimulation request s))) \<and>
     snd (handleSimulationSubmit validateInputs runSimulation request s) =
       [ShowNotification ''Starting simulation...'' info, ValidateInputs request,
        ShowNotification (or_str (validation_error (data vr)) ''Invalid input parameters'')
          error] \<and>
     app_error (fst (handleSimulationSubmit validateInputs runSimulation request s)) =
       Some (or_str (validation_error (data vr)) ''Invalid input parameters'') \<and>
     results (fst (handleSimulationSubmit validateInputs runSimulation request s)) = results s \<and>
     simulationData (fst (handleSimulationSubmit validateInputs runSimulation request s))
       = simulationData s \<and>
     currentTab (fst (handleSimulationSubmit validateInputs runSimulation request s))
       = currentTab s \<and>
     loading (fst (handleSimulationSubmit validateInputs runSimulation request s)) = False \<and>
     handleSimulationSubmit validateInputs runSimulation' request s
       = handleSimulationSubmit validateInputs runSimulation request s"
proof -
  have "handleSimulationSubmit validateInputs run request s =
     (s\<lparr>loading := False,
        app_error := Some (or_str (validation_error (data vr)) ''Invalid input parameters'')\<rparr>,
      [ShowNotification ''Starting simulation...'' info, ValidateInputs request,
       ShowNotification (or_str (validation_error (data vr)) ''Invalid input parameters'') error])"
    for run
    using assms
      handleSimulationSubmit_invalid [where validateInputs = validateInputs and request = request]
    by blast
  then show ?thesis
    by simp
qed

theorem invalid_request_never_runs_simulation_witness:
  "rejecting_validateInputs createDefaultSimulationRequest =
     Inr \<lparr> data = \<lparr> valid = False,
                    validation_error = Some ''Carbon potential below core carbon'',
                    validation_warnings = [''Long carburizing time''] \<rparr>,
           status = Num 200, message = None \<rparr> \<and>
   snd (handleSimulationSubmit rejecting_validateInputs succeeding_runSimulation
          createDefaultSimulationRequest initial_AppState) =
     [ShowNotification ''Starting simulation...'' info,
      ValidateInputs createDefaultSimulationRequest,
      ShowNotification ''Carbon potential below core carbon'' error] \<and>
   app_error (fst (handleSimulationSubmit rejecting_validateInputs succeeding_runSimulation
                     createDefaultSimulationRequest initial_AppState)) =
     Some ''Carbon potential below core carbon'' \<and>
   results (fst (handleSimulationSubmit rejecting_validateInputs succeeding_runSimulation
                   createDefaultSimulationRequest initial_AppState)) = None \<and>
   handleSimulationSubmit rejecting_validateInputs failing_runSimulation
     createDefaultSimulationRequest initial_AppState =
   handleSimulationSubmit rejecting_validateInputs succeeding_runSimulation
     createDefaultSimulationRequest initial_AppState"
proof -
  let ?vr = "\<lparr> data = \<lparr> valid = False,
                    validation_error = Some ''Carbon potential below core carbon'',
                    validation_warnings = [''Long carburizing time''] \<rparr>,
           status = Num 200, message = None \<rparr>"
  have r: "rejecting_validateInputs createDefaultSimulationRequest = Inr ?vr"
    by (simp add: rejecting_validateInputs_def)
  have nv: "\<not> valid (data ?vr)"
    by simp
  show ?thesis
    using r nv invalid_request_never_runs_simulation
      [where validateInputs = rejecting_validateInputs
         and request = createDefaultSimulationRequest and vr = ?vr
         and runSimulation = succeeding_runSimulation and s = initial_AppState
         and runSimulation' = failing_runSimulation]
    by (simp add: initial_AppState_def)
qed

subsection \<open>Facts about \<open>validateSimulationRequest\<close>\<close>

lemmas err_defs = err_steel_required_def err_carbon_def err_carburizing_required_def
  err_carb_temperature_def err_carb_time_def err_quenching_required_def
  err_tempering_required_def err_geometry_required_def err_dimension_def degree_sign_def

lemmas example_request_defs = request_zero_carburizing_time_def
  request_NaN_carbon_def request_hot_quench_def request_cold_carburizing_def
  createDefaultSimulationRequest_def as_partial_def

lemmas check_defs = check_steel_composition_def check_carburizing_def check_quenching_def
  check_tempering_def check_geometry_def

lemmas schema_defs = validationSchema_def schema_steel_composition_def schema_carburizing_def
  schema_quenching_def schema_tempering_def schema_geometry_def schema_initial_conditions_def
  schema_simulation_params_def yup_string_required_def

lemma err_steel_required_neq:
  "err_steel_required \<noteq> err_carbon" "err_steel_required \<noteq> err_carburizing_required"
  "err_steel_required \<noteq> err_carb_temperature" "err_steel_required \<noteq> err_carb_time"
  "err_steel_required \<noteq> err_quenching_required" "err_steel_required \<noteq> err_tempering_required"
  "err_steel_required \<noteq> err_geometry_required" "err_steel_required \<noteq> err_dimension"
  by (simp_all add: err_defs)

lemma err_carbon_neq:
  "err_carbon \<noteq> err_steel_required" "err_carbon \<noteq> err_carburizing_required"
  "err_carbon \<noteq> err_carb_temperature" "err_carbon \<noteq> err_carb_time"
  "err_carbon \<noteq> err_quenching_required" "err_carbon \<noteq> err_tempering_required"
  "err_carbon \<noteq> err_geometry_required" "err_carbon \<noteq> err_dimension"
  by (simp_all add: err_defs)

lemma err_carburizing_required_neq:
  "err_carburizing_required \<noteq> err_steel_required" "err_carburizing_required \<noteq> err_carbon"
  "err_carburizing_required \<noteq> err_carb_temperature" "err_carburizing_required \<noteq> err_carb_time"
  "err_carburizing_required \<noteq> err_quenching_required"
  "err_carburizing_required \<noteq> err_tempering_required"
  "err_carburizing_required \<noteq> err_geometry_required" "err_carburizing_required \<noteq> err_dimension"
  by (simp_all add: err_defs)

lemma err_carb_temperature_neq:
  "err_carb_temperature \<noteq> err_steel_required" "err_carb_temperature \<noteq> err_carbon"
  "err_carb_temperature \<noteq> err_carburizing_required" "err_carb_temperature \<noteq> err_carb_time"
  "err_carb_temperature \<noteq> err_quenching_required" "err_carb_temperature \<noteq> err_tempering_required"
  "err_carb_temperature \<noteq> err_geometry_required" "err_carb_temperature \<noteq> err_dimension"
  by (simp_all add: err_defs)

lemma err_carb_time_neq:
  "err_carb_time \<noteq> err_steel_required" "err_carb_time \<noteq> err_carbon"
  "err_carb_time \<noteq> err_carburizing_required" "err_carb_time \<noteq> err_carb_temperature"
  "err_carb_time \<noteq> err_quenching_required" "err_carb_time \<noteq> err_tempering_required"
  "err_carb_time \<noteq> err_geometry_required" "err_carb_time \<noteq> err_dimension"
  by (simp_all add: err_defs)

lemma err_quenching_required_neq:
  "err_quenching_required \<noteq> err_steel_required" "err_quenching_required \<noteq> err_carbon"
  "err_quenching_required \<noteq> err_carburizing_required"
  "err_quenching_required \<noteq> err_carb_temperature" "err_quenching_required \<noteq> err_carb_time"
  "err_quenching_required \<noteq> err_tempering_required"
  "err_quenching_required \<noteq> err_geometry_required" "err_quenching_required \<noteq> err_dimension"
  by (simp_all add: err_defs)

lemma err_tempering_required_neq:
  "err_tempering_required \<noteq> err_steel_required" "err_tempering_required \<noteq> err_carbon"
  "err_tempering_required \<noteq> err_carburizing_required"
  "err_tempering_required \<noteq> err_carb_temperature" "err_tempering_required \<noteq> err_carb_time"
  "err_tempering_required \<noteq> err_quenching_required"
  "err_tempering_required \<noteq> err_geometry_required" "err_tempering_required \<noteq> err_dimension"
  by (simp_all add: err_defs)

lemma err_geometry_required_neq:
  "err_geometry_required \<noteq> err_steel_required" "err_geometry_required \<noteq> err_carbon"
  "err_geometry_required \<noteq> err_carburizing_required"
  "err_geometry_required \<noteq> err_carb_temperature" "err_geometry_required \<noteq> err_carb_time"
  "err_geometry_required \<noteq> err_quenching_required"
  "err_geometry_required \<noteq> err_tempering_required" "err_geometry_required \<noteq> err_dimension"
  by (simp_all add: err_defs)

lemma err_dimension_neq:
  "err_dimension \<noteq> err_steel_required" "err_dimension \<noteq> err_carbon"
  "err_dimension \<noteq> err_carburizing_required" "err_dimension \<noteq> err_carb_temperature"
  "err_dimension \<noteq> err_carb_time" "err_dimension \<noteq> err_quenching_required"
  "err_dimension \<noteq> err_tempering_required" "err_dimension \<noteq> err_geometry_required"
  by (simp_all add: err_defs)

lemmas err_neq = err_steel_required_neq err_carbon_neq err_carburizing_required_neq
  err_carb_temperature_neq err_carb_time_neq err_quenching_required_neq
  err_tempering_required_neq err_geometry_required_neq err_dimension_neq

text \<open>\<open>!x\<close> holds for a missing value, for zero and for NaN, and for nothing else.\<close>

lemma not_js_iff: "not_js x \<longleftrightarrow> x = None \<or> x = Some (Num 0) \<or> x = Some NaN"
  by (cases x rule: not_js.cases) (auto elim: falsy.elims)

text \<open>The blocks only append, so the result is the concatenation of what each pushes.\<close>

lemma check_steel_composition_append:
  "check_steel_composition r es = es @ check_steel_composition r []"
  by (simp add: check_steel_composition_def split: option.split)

lemma check_carburizing_append: "check_carburizing r es = es @ check_carburizing r []"
  by (simp add: check_carburizing_def Let_def split: option.split)

lemma check_quenching_append: "check_quenching r es = es @ check_quenching r []"
  by (simp add: check_quenching_def split: option.split)

lemma check_tempering_append: "check_tempering r es = es @ check_tempering r []"
  by (simp add: check_tempering_def split: option.split)

lemma check_geometry_append: "check_geometry r es = es @ check_geometry r []"
  by (simp add: check_geometry_def split: option.split)

lemma validateSimulationRequest_append:
  "validateSimulationRequest r =
     check_steel_composition r [] @ check_carburizing r [] @ check_quenching r [] @
     check_tempering r [] @ check_geometry r []"
  unfolding validateSimulationRequest_def
  by (subst check_geometry_append, subst check_tempering_append, subst check_quenching_append,
      subst check_carburizing_append) simp

lemma set_validateSimulationRequest:
  "set (validateSimulationRequest r) =
     set (check_steel_composition r []) \<union> set (check_carburizing r []) \<union>
     set (check_quenching r []) \<union> set (check_tempering r []) \<union> set (check_geometry r [])"
  by (simp only: validateSimulationRequest_append set_append Un_assoc)

lemma steel_composition_emits:
  "set (check_steel_composition r []) =
     (case p_steel_composition r of
        None \<Rightarrow> {err_steel_required}
      | Some sc \<Rightarrow>
          if not_js (comp_C sc) \<or> lt_js (comp_C sc) 0.01 \<or> gt_js (comp_C sc) 2.0
          then {err_carbon} else {})"
  by (simp add: check_steel_composition_def split: option.split)

lemma carburizing_emits:
  "set (check_carburizing r []) =
     (case p_carburizing r of
        None \<Rightarrow> {err_carburizing_required}
      | Some c \<Rightarrow>
          (if lt (carb_temperature c) 850 \<or> gt (carb_temperature c) 1050
           then {err_carb_temperature} else {}) \<union>
          (if lt (carb_time_hours c) 0.5 \<or> gt (carb_time_hours c) 24
           then {err_carb_time} else {}))"
  by (auto simp add: check_carburizing_def Let_def split: option.split)

lemma quenching_emits:
  "set (check_quenching r []) =
     (case p_quenching r of None \<Rightarrow> {err_quenching_required} | Some q \<Rightarrow> {})"
  by (simp add: check_quenching_def split: option.split)

lemma tempering_emits:
  "set (check_tempering r []) =
     (case p_tempering r of None \<Rightarrow> {err_tempering_required} | Some t \<Rightarrow> {})"
  by (simp add: check_tempering_def split: option.split)

lemma geometry_emits:
  "set (check_geometry r []) =
     (case p_geometry r of
        None \<Rightarrow> {err_geometry_required}
      | Some g \<Rightarrow>
          if not_js (characteristic_dimension g) \<or> lt_js (characteristic_dimension g) 1
          then {err_dimension} else {})"
  by (simp add: check_geometry_def split: option.split)

text \<open>Which block pushes which message, and when.\<close>

lemma mem_check_steel_composition:
  "x \<in> set (check_steel_composition r []) \<longleftrightarrow>
     (x = err_steel_required \<and> p_steel_composition r = None) \<or>
     (x = err_carbon \<and> (\<exists>sc. p_steel_composition r = Some sc \<and>
        (not_js (comp_C sc) \<or> lt_js (comp_C sc) 0.01 \<or> gt_js (comp_C sc) 2.0)))"
  by (cases "p_steel_composition r") (simp_all add: steel_composition_emits)

lemma mem_check_carburizing:
  "x \<in> set (check_carburizing r []) \<longleftrightarrow>
     (x = err_carburizing_required \<and> p_carburizing r = None) \<or>
     (x = err_carb_temperature \<and> (\<exists>c. p_carburizing r = Some c \<and>
        (lt (carb_temperature c) 850 \<or> gt (carb_temperature c) 1050))) \<or>
     (x = err_carb_time \<and> (\<exists>c. p_carburizing r = Some c \<and>
        (lt (carb_time_hours c) 0.5 \<or> gt (carb_time_hours c) 24)))"
  by (cases "p_carburizing r") (auto simp add: carburizing_emits)

lemma mem_check_quenching:
  "x \<in> set (check_quenching r []) \<longleftrightarrow> x = err_quenching_required \<and> p_quenching r = None"
  by (cases "p_quenching r") (simp_all add: quenching_emits)

lemma mem_check_tempering:
  "x \<in> set (check_tempering r []) \<longleftrightarrow> x = err_tempering_required \<and> p_tempering r = None"
  by (cases "p_tempering r") (simp_all add: tempering_emits)

lemma mem_check_geometry:
  "x \<in> set (check_geometry r []) \<longleftrightarrow>
     (x = err_geometry_required \<and> p_geometry r = None) \<or>
     (x = err_dimension \<and> (\<exists>g. p_geometry r = Some g \<and>
        (not_js (characteristic_dimension g) \<or> lt_js (characteristic_dimension g) 1)))"
  by (cases "p_geometry r") (simp_all add: geometry_emits)

lemmas mem_validate = set_validateSimulationRequest Un_iff mem_check_steel_composition
  mem_check_carburizing mem_check_quenching mem_check_tempering mem_check_geometry

lemma carbon_error_iff:
  "err_carbon \<in> set (validateSimulationRequest r) \<longleftrightarrow>
     (\<exists>sc. p_steel_composition r = Some sc \<and>
        (not_js (comp_C sc) \<or> lt_js (comp_C sc) 0.01 \<or> gt_js (comp_C sc) 2.0))"
  by (simp only: mem_validate err_neq simp_thms)

lemma carb_temperature_error_iff:
  "err_carb_temperature \<in> set (validateSimulationRequest r) \<longleftrightarrow>
     (\<exists>c. p_carburizing r = Some c \<and>
        (lt (carb_temperature c) 850 \<or> gt (carb_temperature c) 1050))"
  by (simp only: mem_validate err_neq simp_thms)

lemma carb_time_error_iff:
  "err_carb_time \<in> set (validateSimulationRequest r) \<longleftrightarrow>
     (\<exists>c. p_carburizing r = Some c \<and>
        (lt (carb_time_hours c) 0.5 \<or> gt (carb_time_hours c) 24))"
  by (simp only: mem_validate err_neq simp_thms)

lemma dimension_error_iff:
  "err_dimension \<in> set (validateSimulationRequest r) \<longleftrightarrow>
     (\<exists>g. p_geometry r = Some g \<and>
        (not_js (characteristic_dimension g) \<or> lt_js (characteristic_dimension g) 1))"
  by (simp only: mem_validate err_neq simp_thms)

lemma required_errors_iff:
  "err_steel_required \<in> set (validateSimulationRequest r) \<longleftrightarrow> p_steel_composition r = None"
  "err_carburizing_required \<in> set (validateSimulationRequest r) \<longleftrightarrow> p_carburizing r = None"
  "err_quenching_required \<in> set (validateSimulationRequest r) \<longleftrightarrow> p_quenching r = None"
  "err_tempering_required \<in> set (validateSimulationRequest r) \<longleftrightarrow> p_tempering r = None"
  "err_geometry_required \<in> set (validateSimulationRequest r) \<longleftrightarrow> p_geometry r = None"
  by (simp_all only: mem_validate err_neq simp_thms)

lemma validate_subset:
  "set (validateSimulationRequest r) \<subseteq>
     {err_steel_required, err_carbon, err_carburizing_required, err_carb_temperature,
      err_carb_time, err_quenching_required, err_tempering_required, err_geometry_required,
      err_dimension}"
  by (auto simp only: mem_validate)

lemma validate_nil_iff:
  "validateSimulationRequest r = [] \<longleftrightarrow>
     (\<exists>sc c q t g.
        p_steel_composition r = Some sc \<and> p_carburizing r = Some c \<and>
        p_quenching r = Some q \<and> p_tempering r = Some t \<and> p_geometry r = Some g \<and>
        \<not> not_js (comp_C sc) \<and> \<not> lt_js (comp_C sc) 0.01 \<and> \<not> gt_js (comp_C sc) 2.0 \<and>
        \<not> lt (carb_temperature c) 850 \<and> \<not> gt (carb_temperature c) 1050 \<and>
        \<not> lt (carb_time_hours c) 0.5 \<and> \<not> gt (carb_time_hours c) 24 \<and>
        \<not> not_js (characteristic_dimension g) \<and> \<not> lt_js (characteristic_dimension g) 1)"
proof -
  have "validateSimulationRequest r = [] \<longleftrightarrow> set (validateSimulationRequest r) = {}"
    by simp
  also have "\<dots> \<longleftrightarrow>
      set (check_steel_composition r []) = {} \<and> set (check_carburizing r []) = {} \<and>
      set (check_quenching r []) = {} \<and> set (check_tempering r []) = {} \<and>
      set (check_geometry r []) = {}"
    by (simp only: set_validateSimulationRequest Un_empty conj_assoc)
  also have "\<dots> \<longleftrightarrow>
     (\<exists>sc c q t g.
        p_steel_composition r = Some sc \<and> p_carburizing r = Some c \<and>
        p_quenching r = Some q \<and> p_tempering r = Some t \<and> p_geometry r = Some g \<and>
        \<not> not_js (comp_C sc) \<and> \<not> lt_js (comp_C sc) 0.01 \<and> \<not> gt_js (comp_C sc) 2.0 \<and>
        \<not> lt (carb_temperature c) 850 \<and> \<not> gt (carb_temperature c) 1050 \<and>
        \<not> lt (carb_time_hours c) 0.5 \<and> \<not> gt (carb_time_hours c) 24 \<and>
        \<not> not_js (characteristic_dimension g) \<and> \<not> lt_js (characteristic_dimension g) 1)"
    by (cases "p_steel_composition r"; cases "p_carburizing r"; cases "p_quenching r";
        cases "p_tempering r"; cases "p_geometry r")
       (simp_all add: steel_composition_emits carburizing_emits quenching_emits tempering_emits
          geometry_emits)
  finally show ?thesis .
qed

lemma validate_default: "validateSimulationRequest (as_partial createDefaultSimulationRequest) = []"
  by (simp add: validate_nil_iff example_request_defs)

lemma schema_default: "validationSchema createDefaultSimulationRequest"
  by (simp add: schema_defs createDefaultSimulationRequest_def)

lemma yup_number_lt: "lt x lo \<Longrightarrow> \<not> yup_number lo hi x"
  by (cases x) auto

lemma yup_number_gt: "gt x hi \<Longrightarrow> \<not> yup_number lo hi x"
  by (cases x) auto


lemma distinct_checks:
  "distinct (check_steel_composition r [])" "distinct (check_carburizing r [])"
  "distinct (check_quenching r [])" "distinct (check_tempering r [])"
  "distinct (check_geometry r [])"
  by (simp_all add: check_defs Let_def err_neq split: option.split)

lemma validate_distinct: "distinct (validateSimulationRequest r)"
  unfolding validateSimulationRequest_append distinct_append
  by (simp only: distinct_checks set_append Int_Un_distrib simp_thms)
     (auto simp only: mem_check_steel_composition mem_check_carburizing mem_check_quenching
        mem_check_tempering mem_check_geometry err_neq)

subsection \<open>Which process fields are range-checked, and where\<close>

lemma validate_ignores_quenching:
  "p_quenching r \<noteq> None \<Longrightarrow>
     validateSimulationRequest (r\<lparr>p_quenching := Some q\<rparr>) = validateSimulationRequest r"
proof -
  assume "p_quenching r \<noteq> None"
  then have "check_quenching (r\<lparr>p_quenching := Some q\<rparr>) [] = check_quenching r []"
    by (auto simp add: check_quenching_def)
  moreover have "check_steel_composition (r\<lparr>p_quenching := Some q\<rparr>) []
      = check_steel_composition r []"
    and "check_carburizing (r\<lparr>p_quenching := Some q\<rparr>) [] = check_carburizing r []"
    and "check_tempering (r\<lparr>p_quenching := Some q\<rparr>) [] = check_tempering r []"
    and "check_geometry (r\<lparr>p_quenching := Some q\<rparr>) [] = check_geometry r []"
    by (simp_all add: check_defs)
  ultimately show ?thesis
    by (simp only: validateSimulationRequest_append)
qed

lemma validate_ignores_tempering:
  "p_tempering r \<noteq> None \<Longrightarrow>
     validateSimulationRequest (r\<lparr>p_tempering := Some t\<rparr>) = validateSimulationRequest r"
proof -
  assume "p_tempering r \<noteq> None"
  then have "check_tempering (r\<lparr>p_tempering := Some t\<rparr>) [] = check_tempering r []"
    by (auto simp add: check_tempering_def)
  moreover have "check_steel_composition (r\<lparr>p_tempering := Some t\<rparr>) []
      = check_steel_composition r []"
    and "check_carburizing (r\<lparr>p_tempering := Some t\<rparr>) [] = check_carburizing r []"
    and "check_quenching (r\<lparr>p_tempering := Some t\<rparr>) [] = check_quenching r []"
    and "check_geometry (r\<lparr>p_tempering := Some t\<rparr>) [] = check_geometry r []"
    by (simp_all add: check_defs)
  ultimately show ?thesis
    by (simp only: validateSimulationRequest_append)
qed

lemma validate_ignores_other_carburizing_fields:
  "p_carburizing r = Some c \<Longrightarrow>
     validateSimulationRequest
       (r\<lparr>p_carburizing :=
            Some (c\<lparr>carbon_potential := cp, carb_heating_rate := hr, gas_flow_rate := gf,
                    mass_transfer_coefficient := mt\<rparr>)\<rparr>)
     = validateSimulationRequest r"
  by (simp add: validateSimulationRequest_append check_defs)

lemma carburizing_range_reported:
  "p_carburizing r = Some c \<Longrightarrow>
   lt (carb_temperature c) 850 \<or> gt (carb_temperature c) 1050 \<or>
   lt (carb_time_hours c) 0.5 \<or> gt (carb_time_hours c) 24 \<Longrightarrow>
   validateSimulationRequest r \<noteq> []"
  by (auto simp add: validate_nil_iff)

lemma schema_carburizing_range:
  "lt (carb_temperature c) 850 \<or> gt (carb_temperature c) 1050 \<or>
   lt (carb_time_hours c) 0.5 \<or> gt (carb_time_hours c) 24 \<or>
   lt (carbon_potential c) 0.6 \<or> gt (carbon_potential c) 1.5 \<or>
   lt (carb_heating_rate c) 1.0 \<or> gt (carb_heating_rate c) 20.0 \<or>
   lt (gas_flow_rate c) 0.1 \<or> gt (gas_flow_rate c) 5.0 \<or>
   lt (mass_transfer_coefficient c) (1 / 10 ^ 5) \<or>
   gt (mass_transfer_coefficient c) (5 / 10 ^ 4) \<Longrightarrow>
   \<not> schema_carburizing c"
  unfolding schema_carburizing_def
  using yup_number_lt yup_number_gt by blast

lemma schema_quenching_range:
  "lt (quench_temperature q) 20 \<or> gt (quench_temperature q) 150 \<or>
   lt (agitation_rate q) 0.0 \<or> gt (agitation_rate q) 3.0 \<or>
   lt (quench_time q) 60 \<or> gt (quench_time q) 1800 \<or>
   lt (delay_time q) 0 \<or> gt (delay_time q) 600 \<Longrightarrow>
   \<not> schema_quenching q"
  unfolding schema_quenching_def
  using yup_number_lt yup_number_gt by blast

lemma schema_tempering_range:
  "lt (temper_temperature t) 100 \<or> gt (temper_temperature t) 700 \<or>
   lt (temper_time_hours t) 0.5 \<or> gt (temper_time_hours t) 8.0 \<or>
   lt (temper_heating_rate t) 0.5 \<or> gt (temper_heating_rate t) 10.0 \<or>
   lt (temper_cycles t) 1 \<or> gt (temper_cycles t) 3 \<Longrightarrow>
   \<not> schema_tempering t"
  unfolding schema_tempering_def
  using yup_number_lt yup_number_gt by blast

text \<open>
  C2, as the claim states it, fails: a quench temperature of 500 and a tempering
  temperature of 9999 are outside the form's ranges (20 to 150, 100 to 700), and
  \<open>validateSimulationRequest\<close> returns no error for the request.
\<close>

theorem out_of_range_quench_and_temper_pass_validateSimulationRequest:
  "validateSimulationRequest (as_partial request_hot_quench) = [] \<and>
   gt (quench_temperature (quenching request_hot_quench)) 150 \<and>
   gt (temper_temperature (tempering request_hot_quench)) 700"
  by (simp add: validate_nil_iff example_request_defs)

text \<open>
  C2, amended. \<open>validateSimulationRequest\<close> returns a non-empty list whenever the
  carburizing temperature is below 850 or above 1050 or the carburizing time is below 0.5
  or above 24. It range-checks no other field of the process schedule: putting any other
  quenching or tempering record in place of a present one, or changing the carbon
  potential, heating rate, gas flow rate and mass-transfer coefficient, leaves its result
  unchanged. The form's \<open>validationSchema\<close> is where every bounded carburizing,
  quenching and tempering field is range-checked: it rejects the values as soon as one of
  them is outside its range.
\<close>

theorem process_field_range_checks:
  "(p_carburizing r = Some c \<and>
    (lt (carb_temperature c) 850 \<or> gt (carb_temperature c) 1050 \<or>
     lt (carb_time_hours c) 0.5 \<or> gt (carb_time_hours c) 24)
    \<longrightarrow> validateSimulationRequest r \<noteq> []) \<and>
   (p_quenching r \<noteq> None \<longrightarrow>
      validateSimulationRequest (r\<lparr>p_quenching := Some q\<rparr>) = validateSimulationRequest r) \<and>
   (p_tempering r \<noteq> None \<longrightarrow>
      validateSimulationRequest (r\<lparr>p_tempering := Some t\<rparr>) = validateSimulationRequest r) \<and>
   (p_carburizing r = Some c \<longrightarrow>
      validateSimulationRequest
        (r\<lparr>p_carburizing :=
             Some (c\<lparr>carbon_potential := cp, carb_heating_rate := hr, gas_flow_rate := gf,
                     mass_transfer_coefficient := mt\<rparr>)\<rparr>)
      = validateSimulationRequest r) \<and>
   (lt (carb_temperature (carburizing v)) 850 \<or> gt (carb_temperature (carburizing v)) 1050 \<or>
    lt (carb_time_hours (carburizing v)) 0.5 \<or> gt (carb_time_hours (carburizing v)) 24 \<or>
    lt (carbon_potential (carburizing v)) 0.6 \<or> gt (carbon_potential (carburizing v)) 1.5 \<or>
    lt (carb_heating_rate (carburizing v)) 1.0 \<or> gt (carb_heating_rate (carburizing v)) 20.0 \<or>
    lt (gas_flow_rate (carburizing v)) 0.1 \<or> gt (gas_flow_rate (carburizing v)) 5.0 \<or>
    lt (mass_transfer_coefficient (carburizing v)) (1 / 10 ^ 5) \<or>
    gt (mass_transfer_coefficient (carburizing v)) (5 / 10 ^ 4) \<or>
    lt (quench_temperature (quenching v)) 20 \<or> gt (quench_temperature (quenching v)) 150 \<or>
    lt (agitation_rate (quenching v)) 0.0 \<or> gt (agitation_rate (quenching v)) 3.0 \<or>
    lt (quench_time (quenching v)) 60 \<or> gt (quench_time (quenching v)) 1800 \<or>
    lt (delay_time (quenching v)) 0 \<or> gt (delay_time (quenching v)) 600 \<or>
    lt (temper_temperature (tempering v)) 100 \<or> gt (temper_temperature (tempering v)) 700 \<or>
    lt (temper_time_hours (tempering v)) 0.5 \<or> gt (temper_time_hours (tempering v)) 8.0 \<or>
    lt (temper_heating_rate (tempering v)) 0.5 \<or> gt (temper_heating_rate (tempering v)) 10.0 \<or>
    lt (temper_cycles (tempering v)) 1 \<or> gt (temper_cycles (tempering v)) 3
    \<longrightarrow> \<not> validationSchema v)"
proof (intro conjI impI)
  assume "p_carburizing r = Some c \<and>
    (lt (carb_temperature c) 850 \<or> gt (carb_temperature c) 1050 \<or>
     lt (carb_time_hours c) 0.5 \<or> gt (carb_time_hours c) 24)"
  then show "validateSimulationRequest r \<noteq> []"
    using carburizing_range_reported by blast
next
  assume "p_quenching r \<noteq> None"
  then show "validateSimulationRequest (r\<lparr>p_quenching := Some q\<rparr>) = validateSimulationRequest r"
    by (rule validate_ignores_quenching)
next
  assume "p_tempering r \<noteq> None"
  then show "validateSimulationRequest (r\<lparr>p_tempering := Some t\<rparr>) = validateSimulationRequest r"
    by (rule validate_ignores_tempering)
next
  assume "p_carburizing r = Some c"
  then show "validateSimulationRequest
        (r\<lparr>p_carburizing :=
             Some (c\<lparr>carbon_potential := cp, carb_heating_rate := hr, gas_flow_rate := gf,
                     mass_transfer_coefficient := mt\<rparr>)\<rparr>)
      = validateSimulationRequest r"
    by (rule validate_ignores_other_carburizing_fields)
next
  assume "lt (carb_temperature (carburizing v)) 850 \<or> gt (carb_temperature (carburizing v)) 1050 \<or>
    lt (carb_time_hours (carburizing v)) 0.5 \<or> gt (carb_time_hours (carburizing v)) 24 \<or>
    lt (carbon_potential (carburizing v)) 0.6 \<or> gt (carbon_potential (carburizing v)) 1.5 \<or>
    lt (carb_heating_rate (carburizing v)) 1.0 \<or> gt (carb_heating_rate (carburizing v)) 20.0 \<or>
    lt (gas_flow_rate (carburizing v)) 0.1 \<or> gt (gas_flow_rate (carburizing v)) 5.0 \<or>
    lt (mass_transfer_coefficient (carburizing v)) (1 / 10 ^ 5) \<or>
    gt (mass_transfer_coefficient (carburizing v)) (5 / 10 ^ 4) \<or>
    lt (quench_temperature (quenching v)) 20 \<or> gt (quench_temperature (quenching v)) 150 \<or>
    lt (agitation_rate (quenching v)) 0.0 \<or> gt (agitation_rate (quenching v)) 3.0 \<or>
    lt (quench_time (quenching v)) 60 \<or> gt (quench_time (quenching v)) 1800 \<or>
    lt (delay_time (quenching v)) 0 \<or> gt (delay_time (quenching v)) 600 \<or>
    lt (temper_temperature (tempering v)) 100 \<or> gt (temper_temperature (tempering v)) 700 \<or>
    lt (temper_time_hours (tempering v)) 0.5 \<or> gt (temper_time_hours (tempering v)) 8.0 \<or>
    lt (temper_heating_rate (tempering v)) 0.5 \<or> gt (temper_heating_rate (tempering v)) 10.0 \<or>
    lt (temper_cycles (tempering v)) 1 \<or> gt (temper_cycles (tempering v)) 3"
  then have "\<not> schema_carburizing (carburizing v) \<or> \<not> schema_quenching (quenching v) \<or>
      \<not> schema_tempering (tempering v)"
    using schema_carburizing_range [of "carburizing v"] schema_quenching_range [of "quenching v"]
      schema_tempering_range [of "tempering v"]
    by blast
  then show "\<not> validationSchema v"
    unfolding validationSchema_def by blast
qed

theorem process_field_range_checks_witness:
  "p_carburizing (as_partial request_cold_carburizing) = Some (carburizing request_cold_carburizing) \<and>
   lt (carb_temperature (carburizing request_cold_carburizing)) 850 \<and>
   validateSimulationRequest (as_partial request_cold_carburizing) \<noteq> [] \<and>
   p_quenching (as_partial request_cold_carburizing) \<noteq> None \<and>
   p_tempering (as_partial request_cold_carburizing) \<noteq> None \<and>
   validateSimulationRequest
     ((as_partial request_cold_carburizing)\<lparr>p_quenching := Some (quenching request_hot_quench)\<rparr>)
     = validateSimulationRequest (as_partial request_cold_carburizing) \<and>
   validateSimulationRequest
     ((as_partial request_cold_carburizing)\<lparr>p_tempering := Some (tempering request_hot_quench)\<rparr>)
     = validateSimulationRequest (as_partial request_cold_carburizing) \<and>
   validateSimulationRequest
     ((as_partial request_cold_carburizing)
        \<lparr>p_carburizing :=
           Some ((carburizing request_cold_carburizing)
                   \<lparr>carbon_potential := Num 9, carb_heating_rate := Num 0,
                    gas_flow_rate := NaN, mass_transfer_coefficient := PosInf\<rparr>)\<rparr>)
     = validateSimulationRequest (as_partial request_cold_carburizing) \<and>
   gt (quench_temperature (quenching request_hot_quench)) 150 \<and>
   \<not> validationSchema request_hot_quench"
  using process_field_range_checks
    [where r = "as_partial request_cold_carburizing"
       and c = "carburizing request_cold_carburizing"
       and q = "quenching request_hot_quench" and t = "tempering request_hot_quench"
       and cp = "Num 9" and hr = "Num 0" and gf = NaN and mt = PosInf
       and v = request_hot_quench]
  by (simp add: example_request_defs)

subsection \<open>What \<open>validateSimulationRequest\<close> reports\<close>

text \<open>
  C3, as the claim states it, fails for a carbon content of NaN: \<open>!NaN\<close> is true, so the
  carbon message is pushed although C is present, is not zero, and is neither below 0.01
  nor above 2.0.
\<close>

theorem carbon_error_on_NaN:
  "err_carbon \<in> set (validateSimulationRequest (as_partial request_NaN_carbon)) \<and>
   comp_C (steel_composition request_NaN_carbon) \<noteq> None \<and>
   comp_C (steel_composition request_NaN_carbon) \<noteq> Some (Num 0) \<and>
   \<not> lt_js (comp_C (steel_composition request_NaN_carbon)) 0.01 \<and>
   \<not> gt_js (comp_C (steel_composition request_NaN_carbon)) 2.0"
  by (simp add: carbon_error_iff example_request_defs)

text \<open>
  C3, amended. \<open>validateSimulationRequest\<close> returns exactly the messages of the checks
  that fail, each once, and the empty list otherwise. The carbon message appears iff the
  steel composition is present and C is absent, zero, NaN, below 0.01 or above 2.0; the
  carburizing temperature message iff the carburizing record is present and the
  temperature is below 850 or above 1050; the carburizing time message iff it is present
  and the time is below 0.5 or above 24; the dimension message iff the geometry is present
  and the characteristic dimension is absent, zero, NaN or below 1; a "required" message
  iff its sub-record is missing. When all five sub-records are present and those four
  fields are in range, the list is empty.
\<close>

theorem validateSimulationRequest_messages:
  "(err_carbon \<in> set (validateSimulationRequest r) \<longleftrightarrow>
      (\<exists>sc. p_steel_composition r = Some sc \<and>
         (comp_C sc = None \<or> comp_C sc = Some (Num 0) \<or> comp_C sc = Some NaN \<or>
          lt_js (comp_C sc) 0.01 \<or> gt_js (comp_C sc) 2.0))) \<and>
   (err_carb_temperature \<in> set (validateSimulationRequest r) \<longleftrightarrow>
      (\<exists>c. p_carburizing r = Some c \<and>
         (lt (carb_temperature c) 850 \<or> gt (carb_temperature c) 1050))) \<and>
   (err_carb_time \<in> set (validateSimulationRequest r) \<longleftrightarrow>
      (\<exists>c. p_carburizing r = Some c \<and>
         (lt (carb_time_hours c) 0.5 \<or> gt (carb_time_hours c) 24))) \<and>
   (err_dimension \<in> set (validateSimulationRequest r) \<longleftrightarrow>
      (\<exists>g. p_geometry r = Some g \<and>
         (characteristic_dimension g = None \<or> characteristic_dimension g = Some (Num 0) \<or>
          characteristic_dimension g = Some NaN \<or> lt_js (characteristic_dimension g) 1))) \<and>
   (err_steel_required \<in> set (validateSimulationRequest r) \<longleftrightarrow> p_steel_composition r = None) \<and>
   (err_carburizing_required \<in> set (validateSimulationRequest r) \<longleftrightarrow> p_carburizing r = None) \<and>
   (err_quenching_required \<in> set (validateSimulationRequest r) \<longleftrightarrow> p_quenching r = None) \<and>
   (err_tempering_required \<in> set (validateSimulationRequest r) \<longleftrightarrow> p_tempering r = None) \<and>
   (err_geometry_required \<in> set (validateSimulationRequest r) \<longleftrightarrow> p_geometry r = None) \<and>
   set (validateSimulationRequest r) \<subseteq>
     {err_steel_required, err_carbon, err_carburizing_required, err_carb_temperature,
      err_carb_time, err_quenching_required, err_tempering_required, err_geometry_required,
      err_dimension} \<and>
   distinct (validateSimulationRequest r) \<and>
   (p_steel_composition r = Some sc0 \<and> comp_C sc0 = Some (Num carbon) \<and>
    0.01 \<le> carbon \<and> carbon \<le> 2.0 \<and>
    p_carburizing r = Some c0 \<and> carb_temperature c0 = Num temp \<and> 850 \<le> temp \<and>
    temp \<le> 1050 \<and> carb_time_hours c0 = Num hours \<and> 0.5 \<le> hours \<and> hours \<le> 24 \<and>
    p_quenching r = Some q0 \<and> p_tempering r = Some t0 \<and>
    p_geometry r = Some g0 \<and> characteristic_dimension g0 = Some (Num d_mm) \<and> 1 \<le> d_mm
    \<longrightarrow> validateSimulationRequest r = [])"
proof -
  have in_range: "validateSimulationRequest r = []"
    if "p_steel_composition r = Some sc0" "comp_C sc0 = Some (Num carbon)"
      "0.01 \<le> carbon" "carbon \<le> 2.0"
      "p_carburizing r = Some c0" "carb_temperature c0 = Num temp" "850 \<le> temp"
      "temp \<le> 1050" "carb_time_hours c0 = Num hours" "0.5 \<le> hours" "hours \<le> 24"
      "p_quenching r = Some q0" "p_tempering r = Some t0"
      "p_geometry r = Some g0" "characteristic_dimension g0 = Some (Num d_mm)" "1 \<le> d_mm"
    using that by (simp add: validate_nil_iff)
  show ?thesis
    using in_range validate_subset [of r] validate_distinct [of r]
    by (simp only: carbon_error_iff carb_temperature_error_iff carb_time_error_iff
        dimension_error_iff required_errors_iff not_js_iff disj_assoc simp_thms) blast
qed

theorem validateSimulationRequest_messages_witness:
  "p_steel_composition (as_partial createDefaultSimulationRequest)
     = Some (steel_composition createDefaultSimulationRequest) \<and>
   comp_C (steel_composition createDefaultSimulationRequest) = Some (Num 0.20) \<and>
   (0.01::real) \<le> 0.20 \<and> (0.20::real) \<le> 2.0 \<and>
   p_carburizing (as_partial createDefaultSimulationRequest)
     = Some (carburizing createDefaultSimulationRequest) \<and>
   carb_temperature (carburizing createDefaultSimulationRequest) = Num 920 \<and>
   (850::real) \<le> 920 \<and> (920::real) \<le> 1050 \<and>
   carb_time_hours (carburizing createDefaultSimulationRequest) = Num 6 \<and>
   (0.5::real) \<le> 6 \<and> (6::real) \<le> 24 \<and>
   p_quenching (as_partial createDefaultSimulationRequest)
     = Some (quenching createDefaultSimulationRequest) \<and>
   p_tempering (as_partial createDefaultSimulationRequest)
     = Some (tempering createDefaultSimulationRequest) \<and>
   p_geometry (as_partial createDefaultSimulationRequest)
     = Some (geometry createDefaultSimulationRequest) \<and>
   characteristic_dimension (geometry createDefaultSimulationRequest) = Some (Num 25) \<and>
   (1::real) \<le> 25 \<and>
   validateSimulationRequest (as_partial createDefaultSimulationRequest) = [] \<and>
   validateSimulationRequest (as_partial request_cold_carburizing) = [err_carb_temperature]"
proof -
  have "validateSimulationRequest (as_partial request_cold_carburizing) = [err_carb_temperature]"
    by (simp add: validateSimulationRequest_def check_defs example_request_defs)
  then show ?thesis
    using validateSimulationRequest_messages
      [where r = "as_partial createDefaultSimulationRequest"
         and ?sc0.0 = "steel_composition createDefaultSimulationRequest" and carbon = "0.20"
         and ?c0.0 = "carburizing createDefaultSimulationRequest" and temp = 920 and hours = 6
         and ?q0.0 = "quenching createDefaultSimulationRequest"
         and ?t0.0 = "tempering createDefaultSimulationRequest"
         and ?g0.0 = "geometry createDefaultSimulationRequest" and d_mm = 25]
    by (simp add: as_partial_def createDefaultSimulationRequest_def)
qed

subsection \<open>A carburizing time of zero\<close>




subsection \<open>Critical temperatures\<close>

lemma criticalTemperatures_Inr_iff:
  "criticalTemperatures k wt = Inr ct \<longleftrightarrow>
     valid_composition k wt \<and> ae1_regression k wt < ae3_regression k wt \<and>
     ct = \<lparr> AE3 = ae3_regression k wt, AE1 = ae1_regression k wt,
            Ms_core = ms_core_regression k wt, Ms_surface = ms_surface_regression k wt,
            Bs = bs_regression k wt \<rparr>"
  by (auto simp add: criticalTemperatures_def)

lemma criticalTemperatures_Inl_iff:
  "criticalTemperatures k wt = Inl f \<longleftrightarrow>
     f = InvalidComposition \<and>
     (\<not> valid_composition k wt \<or> ae3_regression k wt \<le> ae1_regression k wt)"
  by (auto simp add: criticalTemperatures_def)

text \<open>
  C5. For every composition with each element inside its valid range, the critical
  temperatures that \<open>criticalTemperatures\<close> derives satisfy AE3 > AE1 (and are the values
  of the two regressions); a composition for which the regression yields AE3 \<le> AE1 is
  rejected with \<open>InvalidComposition\<close> and no result is returned for it. A valid
  composition is rejected in that case only, so one with AE3 > AE1 does get its result.
  This holds whatever the regression constants are.
\<close>

theorem criticalTemperatures_ordering:
  "(valid_composition k wt \<and> criticalTemperatures k wt = Inr ct \<longrightarrow>
      AE1 ct < AE3 ct \<and> AE3 ct = ae3_regression k wt \<and> AE1 ct = ae1_regression k wt) \<and>
   (ae3_regression k wt \<le> ae1_regression k wt \<longrightarrow>
      criticalTemperatures k wt = Inl InvalidComposition) \<and>
   (criticalTemperatures k wt = Inr ct \<longrightarrow> valid_composition k wt \<and> AE1 ct < AE3 ct) \<and>
   (valid_composition k wt \<and> ae1_regression k wt < ae3_regression k wt \<longrightarrow>
      (\<exists>ct'. criticalTemperatures k wt = Inr ct')) \<and>
   (valid_composition k wt \<and> criticalTemperatures k wt = Inl f \<longrightarrow>
      f = InvalidComposition \<and> ae3_regression k wt \<le> ae1_regression k wt)"
proof (intro conjI impI)
  assume "valid_composition k wt \<and> criticalTemperatures k wt = Inr ct"
  then show "AE1 ct < AE3 ct" and "AE3 ct = ae3_regression k wt"
    and "AE1 ct = ae1_regression k wt"
    by (simp_all add: criticalTemperatures_Inr_iff)
next
  assume "ae3_regression k wt \<le> ae1_regression k wt"
  then show "criticalTemperatures k wt = Inl InvalidComposition"
    by (simp add: criticalTemperatures_Inl_iff)
next
  assume "criticalTemperatures k wt = Inr ct"
  then show "valid_composition k wt" and "AE1 ct < AE3 ct"
    by (simp_all add: criticalTemperatures_Inr_iff)
next
  assume "valid_composition k wt \<and> ae1_regression k wt < ae3_regression k wt"
  then show "\<exists>ct'. criticalTemperatures k wt = Inr ct'"
    by (simp add: criticalTemperatures_Inr_iff)
next
  assume "valid_composition k wt \<and> criticalTemperatures k wt = Inl f"
  then show "f = InvalidComposition" and "ae3_regression k wt \<le> ae1_regression k wt"
    by (simp_all add: criticalTemperatures_Inl_iff)
qed

lemma example_regressions:
  "ae3_regression example_constants reference_steel = 879"
  "ae1_regression example_constants reference_steel = 720.6"
  "ae3_regression example_constants high_carbon_chromium_steel = 510"
  "ae1_regression example_constants high_carbon_chromium_steel = 774"
  by (simp_all add: ae3_regression_def ae1_regression_def linear_combination_def
      example_constants_def elements_def)

lemma example_compositions_valid:
  "valid_composition example_constants reference_steel"
  "valid_composition example_constants high_carbon_chromium_steel"
  by (simp_all add: valid_composition_def in_valid_range_def elements_def example_constants_def)

theorem criticalTemperatures_ordering_witness:
  "valid_composition example_constants reference_steel \<and>
   criticalTemperatures example_constants reference_steel =
     Inr \<lparr> AE3 = 879, AE1 = 720.6, Ms_core = 454.4, Ms_surface = 454.4, Bs = 776 \<rparr> \<and>
   (720.6::real) < 879 \<and>
   valid_composition example_constants high_carbon_chromium_steel \<and>
   ae3_regression example_constants high_carbon_chromium_steel
     \<le> ae1_regression example_constants high_carbon_chromium_steel \<and>
   criticalTemperatures example_constants high_carbon_chromium_steel = Inl InvalidComposition"
proof -
  have "criticalTemperatures example_constants reference_steel =
     Inr \<lparr> AE3 = 879, AE1 = 720.6, Ms_core = 454.4, Ms_surface = 454.4, Bs = 776 \<rparr>"
    by (simp add: criticalTemperatures_def example_regressions example_compositions_valid)
       (simp add: example_constants_def)
  then show ?thesis
    using criticalTemperatures_ordering
        [where k = example_constants and wt = reference_steel
           and ct = "\<lparr> AE3 = 879, AE1 = 720.6, Ms_core = 454.4, Ms_surface = 454.4,
                       Bs = 776 \<rparr>"]
      criticalTemperatures_ordering
        [where k = example_constants and wt = high_carbon_chromium_steel]
    by (simp add: example_regressions example_compositions_valid)
qed

subsection \<open>The default request\<close>

text \<open>
  C6. \<open>createDefaultSimulationRequest\<close> returns the reference scenario: composition
  C = 0.20, Si = 0.25, Mn = 0.80, Ni = 0.55, Cr = 0.50, Mo = 0.20 and V, W, Cu, P, Al, As,
  Ti all 0; carburizing at 920 for 6.0 hours at carbon potential 1.0; quench medium
  \<open>oil\<close> at 60; tempering at 170 for 2.0 hours.
\<close>

theorem createDefaultSimulationRequest_reference_scenario:
  "comp_C (steel_composition createDefaultSimulationRequest) = Some (Num 0.20) \<and>
   comp_Si (steel_composition createDefaultSimulationRequest) = Num 0.25 \<and>
   comp_Mn (steel_composition createDefaultSimulationRequest) = Num 0.80 \<and>
   comp_Ni (steel_composition createDefaultSimulationRequest) = Num 0.55 \<and>
   comp_Cr (steel_composition createDefaultSimulationRequest) = Num 0.50 \<and>
   comp_Mo (steel_composition createDefaultSimulationRequest) = Num 0.20 \<and>
   comp_V (steel_composition createDefaultSimulationRequest) = Num 0 \<and>
   comp_W (steel_composition createDefaultSimulationRequest) = Num 0 \<and>
   comp_Cu (steel_composition createDefaultSimulationRequest) = Num 0 \<and>
   comp_P (steel_composition createDefaultSimulationRequest) = Num 0 \<and>
   comp_Al (steel_composition createDefaultSimulationRequest) = Num 0 \<and>
   comp_As (steel_composition createDefaultSimulationRequest) = Num 0 \<and>
   comp_Ti (steel_composition createDefaultSimulationRequest) = Num 0 \<and>
   carb_temperature (carburizing createDefaultSimulationRequest) = Num 920 \<and>
   carb_time_hours (carburizing createDefaultSimulationRequest) = Num 6.0 \<and>
   carbon_potential (carburizing createDefaultSimulationRequest) = Num 1.0 \<and>
   quench_medium (quenching createDefaultSimulationRequest) = ''oil'' \<and>
   quench_temperature (quenching createDefaultSimulationRequest) = Num 60 \<and>
   temper_temperature (tempering createDefaultSimulationRequest) = Num 170 \<and>
   temper_time_hours (tempering createDefaultSimulationRequest) = Num 2.0"
  by (simp add: createDefaultSimulationRequest_def)

subsection \<open>The result structure\<close>


text \<open>
  The record type has a place for each item, independent of the others.
\<close>

lemma SimulationResults_fields_independent:
  "\<exists>r :: SimulationResults.
     property_profiles r =
       \<lparr> distance_mm = distances, carbon_profile = carbon, hardness_hv = hv,
         hardness_hrc = hrc, grain_size = grains, phase_fractions = phases \<rparr> \<and>
     thermal_profiles r = thermal \<and> critical_temperatures r = ct \<and>
     case_depth_results r = depths \<and> quality_assessment r = quality \<and>
     warnings r = ws \<and> errors r = es \<and> validation_status r = vs"
  by (rule exI [of _ "example_results
        \<lparr> property_profiles :=
            \<lparr> distance_mm = distances, carbon_profile = carbon, hardness_hv = hv,
              hardness_hrc = hrc, grain_size = grains, phase_fractions = phases \<rparr>,
          thermal_profiles := thermal, critical_temperatures := ct,
          case_depth_results := depths, quality_assessment := quality,
          warnings := ws, errors := es, validation_status := vs \<rparr>"]) simp



subsection \<open>The quality score\<close>

lemma qualityMetrics_scores:
  "map score (the (qualityMetrics (Some r))) =
     [if surface_hardness_ok (quality_assessment r) then Num 100 else Num 70,
      if case_depth_ok (quality_assessment r) then Num 100 else Num 75,
      if core_hardness_ok (quality_assessment r) then Num 100 else Num 65,
      if grain_size_ok (quality_assessment r) then Num 100 else Num 80]"
  by (simp add: qualityMetrics_def)

lemma overallScore_qualityMetrics:
  "overallScore (qualityMetrics (Some r)) =
     Num (((if surface_hardness_ok (quality_assessment r) then 100 else 70) +
           (if case_depth_ok (quality_assessment r) then 100 else 75) +
           (if core_hardness_ok (quality_assessment r) then 100 else 65) +
           (if grain_size_ok (quality_assessment r) then 100 else 80)) / 4)"
  by (simp add: overallScore_def qualityMetrics_def)

text \<open>
  C8. For every result, the overall quality score is the arithmetic mean of the four
  metric scores, each 100 when its flag holds and 70, 75, 65, 80 (surface hardness, case
  depth, core hardness, grain size) when it does not. So the score lies between 72.5 and
  100, is 100 exactly when all four flags hold, and setting any one flag to true never
  lowers it.
\<close>

theorem overallScore_mean_of_four:
  "overallScore (qualityMetrics (Some r)) =
     Num (((if surface_hardness_ok (quality_assessment r) then 100 else 70) +
           (if case_depth_ok (quality_assessment r) then 100 else 75) +
           (if core_hardness_ok (quality_assessment r) then 100 else 65) +
           (if grain_size_ok (quality_assessment r) then 100 else 80)) / 4) \<and>
   map score (the (qualityMetrics (Some r))) =
     [if surface_hardness_ok (quality_assessment r) then Num 100 else Num 70,
      if case_depth_ok (quality_assessment r) then Num 100 else Num 75,
      if core_hardness_ok (quality_assessment r) then Num 100 else Num 65,
      if grain_size_ok (quality_assessment r) then Num 100 else Num 80] \<and>
   (\<exists>x. overallScore (qualityMetrics (Some r)) = Num x \<and> 72.5 \<le> x \<and> x \<le> 100) \<and>
   (overallScore (qualityMetrics (Some r)) = Num 100 \<longleftrightarrow>
      surface_hardness_ok (quality_assessment r) \<and> case_depth_ok (quality_assessment r) \<and>
      core_hardness_ok (quality_assessment r) \<and> grain_size_ok (quality_assessment r)) \<and>
   (\<exists>x y. overallScore (qualityMetrics (Some r)) = Num x \<and>
      overallScore (qualityMetrics (Some
        (r\<lparr>quality_assessment := (quality_assessment r)\<lparr>surface_hardness_ok := True\<rparr>\<rparr>)))
        = Num y \<and> x \<le> y) \<and>
   (\<exists>x y. overallScore (qualityMetrics (Some r)) = Num x \<and>
      overallScore (qualityMetrics (Some
        (r\<lparr>quality_assessment := (quality_assessment r)\<lparr>case_depth_ok := True\<rparr>\<rparr>)))
        = Num y \<and> x \<le> y) \<and>
   (\<exists>x y. overallScore (qualityMetrics (Some r)) = Num x \<and>
      overallScore (qualityMetrics (Some
        (r\<lparr>quality_assessment := (quality_assessment r)\<lparr>core_hardness_ok := True\<rparr>\<rparr>)))
        = Num y \<and> x \<le> y) \<and>
   (\<exists>x y. overallScore (qualityMetrics (Some r)) = Num x \<and>
      overallScore (qualityMetrics (Some
        (r\<lparr>quality_assessment := (quality_assessment r)\<lparr>grain_size_ok := True\<rparr>\<rparr>)))
        = Num y \<and> x \<le> y)"
proof -
  let ?mean = "\<lambda>q. ((if surface_hardness_ok q then 100 else 70) +
                    (if case_depth_ok q then 100 else 75) +
                    (if core_hardness_ok q then 100 else 65) +
                    (if grain_size_ok q then 100 else 80)) / (4::real)"
  have score: "overallScore (qualityMetrics (Some r')) = Num (?mean (quality_assessment r'))"
    for r'
    by (rule overallScore_qualityMetrics)
  have lower: "72.5 \<le> ?mean q" and upper: "?mean q \<le> 100" for q
    by simp_all
  have full: "?mean q = 100 \<longleftrightarrow>
      surface_hardness_ok q \<and> case_depth_ok q \<and> core_hardness_ok q \<and> grain_size_ok q" for q
    by (cases "surface_hardness_ok q"; cases "case_depth_ok q"; cases "core_hardness_ok q";
        cases "grain_size_ok q") simp_all
  have mono: "?mean q \<le> ?mean (q\<lparr>surface_hardness_ok := True\<rparr>)"
    "?mean q \<le> ?mean (q\<lparr>case_depth_ok := True\<rparr>)"
    "?mean q \<le> ?mean (q\<lparr>core_hardness_ok := True\<rparr>)"
    "?mean q \<le> ?mean (q\<lparr>grain_size_ok := True\<rparr>)" for q
    by simp_all
  have flip: "\<exists>x y. overallScore (qualityMetrics (Some r)) = Num x \<and>
      overallScore (qualityMetrics (Some (r\<lparr>quality_assessment := q'\<rparr>))) = Num y \<and> x \<le> y"
    if "?mean (quality_assessment r) \<le> ?mean q'" for q'
  proof (intro exI conjI)
    show "overallScore (qualityMetrics (Some r)) = Num (?mean (quality_assessment r))"
      by (rule score)
    show "overallScore (qualityMetrics (Some (r\<lparr>quality_assessment := q'\<rparr>))) = Num (?mean q')"
      using score [of "r\<lparr>quality_assessment := q'\<rparr>"] by simp
    show "?mean (quality_assessment r) \<le> ?mean q'"
      by (rule that)
  qed
  have range: "\<exists>x. overallScore (qualityMetrics (Some r)) = Num x \<and> 72.5 \<le> x \<and> x \<le> 100"
    using score [of r] lower [of "quality_assessment r"] upper [of "quality_assessment r"]
    by blast
  have hundred: "overallScore (qualityMetrics (Some r)) = Num 100 \<longleftrightarrow>
      surface_hardness_ok (quality_assessment r) \<and> case_depth_ok (quality_assessment r) \<and>
      core_hardness_ok (quality_assessment r) \<and> grain_size_ok (quality_assessment r)"
    using full [of "quality_assessment r"] by (simp only: score number.inject)
  show ?thesis
    using score [of r] qualityMetrics_scores [of r] range hundred
      flip [OF mono(1)] flip [OF mono(2)] flip [OF mono(3)] flip [OF mono(4)]
    by blast
qed

theorem overallScore_mean_of_four_witness:
  "overallScore (qualityMetrics (Some example_results)) = Num 93.75 \<and>
   overallScore (qualityMetrics (Some
     (example_results\<lparr>quality_assessment :=
        (quality_assessment example_results)\<lparr>case_depth_ok := True\<rparr>\<rparr>))) = Num 100"
  using overallScore_mean_of_four [of example_results]
    overallScore_mean_of_four
      [of "example_results\<lparr>quality_assessment :=
             (quality_assessment example_results)\<lparr>case_depth_ok := True\<rparr>\<rparr>"]
  by (simp add: example_results_def)

subsection \<open>Selecting a quench medium\<close>

lemma get_property_Own: "table key = Some v \<Longrightarrow> get_property table key = Own v"
  by (simp add: get_property_def)

lemma get_property_Absent:
  "table key = None \<Longrightarrow> key \<notin> set Object_prototype_properties \<Longrightarrow>
     get_property table key = Absent"
  by (simp add: get_property_def)

lemma get_property_Inherited:
  "table key = None \<Longrightarrow> key \<in> set Object_prototype_properties \<Longrightarrow>
     get_property table key = Inherited"
  by (simp add: get_property_def)

text \<open>
  A name that every object inherits passes the handler's guard although the table has no
  such medium: the medium field is set to the name and the temperature to \<open>undefined\<close>.
\<close>

lemma inherited_key_is_written:
  "medium \<in> set Object_prototype_properties \<Longrightarrow> media qm = Some table \<Longrightarrow>
   table medium = None \<Longrightarrow>
   handleQuenchMediumChange rnd (Some qm) medium =
     [(''quenching.quench_medium'', StringValue medium),
      (''quenching.quench_temperature'', UndefinedValue)]"
  by (auto simp add: handleQuenchMediumChange_def get_property_Inherited
      Object_prototype_properties_def)

text \<open>
  With bounds whose sum overflows, the value written is not the midpoint: for the range
  \<open>[10 ^ 308, 10 ^ 308]\<close> it is the infinity.
\<close>

lemma overflowing_midpoint:
  "div_rounded overflowing (add_rounded overflowing (Num (10 ^ 308)) (Num (10 ^ 308))) 2 = PosInf"
proof -
  have "(2::real) ^ 1024 \<le> 2 * 10 ^ 308"
    by simp
  then show ?thesis
    by (simp add: overflowing_def)
qed

text \<open>
  C9, as the claim states it, fails for a table entry stored under the empty key: the
  handler's guard \<open>medium && ...\<close> stops at the empty string, so selecting that entry sets
  no field although the entry supplies a range.
\<close>

theorem empty_medium_key_sets_nothing:
  "media example_media = Some example_table \<and>
   example_table [] = Some unnamed_medium \<and>
   heat_transfer_coefficient_range unnamed_medium = Some (Num 2000, Num 4000) \<and>
   handleQuenchMediumChange overflowing (Some example_media) [] = []"
  by (simp add: handleQuenchMediumChange_def example_media_def example_table_def
      unnamed_medium_def)

text \<open>
  C9, amended. For every quench medium with a non-empty key whose table entry supplies a
  \<open>heat_transfer_coefficient_range\<close> \<open>[lo, hi]\<close>, selecting it in the input form makes
  exactly three writes: \<open>quenching.quench_medium\<close> becomes the key,
  \<open>quenching.quench_temperature\<close> the entry's \<open>typical_temperature\<close>, and
  \<open>quenching.heat_transfer_coefficient\<close> the value of \<open>(lo + hi) / 2\<close> in double
  arithmetic, which is the arithmetic midpoint whenever neither the sum nor the halving
  rounds. Selecting the empty key, or a key that is neither in the table nor the name of
  a property that every object inherits, changes no field; nor does any selection while
  the table is missing.
\<close>

theorem quench_medium_selection:
  "(medium \<noteq> [] \<and> media qm = Some table \<and> table medium = Some mediaData \<and>
    heat_transfer_coefficient_range mediaData = Some (lo, hi) \<longrightarrow>
      handleQuenchMediumChange rnd (Some qm) medium =
        [(''quenching.quench_medium'', StringValue medium),
         (''quenching.quench_temperature'', NumberValue (typical_temperature mediaData)),
         (''quenching.heat_transfer_coefficient'',
          NumberValue (div_rounded rnd (add_rounded rnd lo hi) 2))]) \<and>
   (rnd (a + b) = Num (a + b) \<and> rnd ((a + b) / 2) = Num ((a + b) / 2) \<longrightarrow>
      div_rounded rnd (add_rounded rnd (Num a) (Num b)) 2 = Num ((a + b) / 2)) \<and>
   (medium = [] \<or> media qm = None \<or>
    (media qm = Some table \<and> table medium = None \<and>
     medium \<notin> set Object_prototype_properties)
    \<longrightarrow> handleQuenchMediumChange rnd (Some qm) medium = []) \<and>
   handleQuenchMediumChange rnd None medium = []"
proof (intro conjI impI)
  assume "medium \<noteq> [] \<and> media qm = Some table \<and> table medium = Some mediaData \<and>
    heat_transfer_coefficient_range mediaData = Some (lo, hi)"
  then show "handleQuenchMediumChange rnd (Some qm) medium =
        [(''quenching.quench_medium'', StringValue medium),
         (''quenching.quench_temperature'', NumberValue (typical_temperature mediaData)),
         (''quenching.heat_transfer_coefficient'',
          NumberValue (div_rounded rnd (add_rounded rnd lo hi) 2))]"
    by (simp add: handleQuenchMediumChange_def get_property_Own)
next
  assume "rnd (a + b) = Num (a + b) \<and> rnd ((a + b) / 2) = Num ((a + b) / 2)"
  then show "div_rounded rnd (add_rounded rnd (Num a) (Num b)) 2 = Num ((a + b) / 2)"
    by simp
next
  assume "medium = [] \<or> media qm = None \<or>
    (media qm = Some table \<and> table medium = None \<and>
     medium \<notin> set Object_prototype_properties)"
  then show "handleQuenchMediumChange rnd (Some qm) medium = []"
    by (auto simp add: handleQuenchMediumChange_def get_property_Absent)
next
  show "handleQuenchMediumChange rnd None medium = []"
    by (simp add: handleQuenchMediumChange_def)
qed

theorem quench_medium_selection_witness:
  "''oil'' \<noteq> [] \<and> media example_media = Some example_table \<and>
   example_table ''oil'' = Some oil_medium \<and>
   heat_transfer_coefficient_range oil_medium = Some (Num 500, Num 1500) \<and>
   overflowing (500 + 1500) = Num (500 + 1500) \<and>
   overflowing ((500 + 1500) / 2) = Num ((500 + 1500) / 2) \<and>
   handleQuenchMediumChange overflowing (Some example_media) ''oil'' =
     [(''quenching.quench_medium'', StringValue ''oil''),
      (''quenching.quench_temperature'', NumberValue (Num 80)),
      (''quenching.heat_transfer_coefficient'', NumberValue (Num 1000))] \<and>
   example_table ''brine'' = None \<and>
   ''brine'' \<notin> set Object_prototype_properties \<and>
   handleQuenchMediumChange overflowing (Some example_media) ''brine'' = []"
proof -
  have small: "overflowing (500 + 1500) = Num (500 + 1500)"
    "overflowing ((500 + 1500) / 2) = Num ((500 + 1500) / 2)"
    by (simp_all add: overflowing_def)
  have brine: "''brine'' \<notin> set Object_prototype_properties"
    by (simp add: Object_prototype_properties_def)
  show ?thesis
    using small brine
      quench_medium_selection
        [where medium = "''oil''" and qm = example_media and table = example_table
           and mediaData = oil_medium and lo = "Num 500" and hi = "Num 1500"
           and rnd = overflowing and a = 500 and b = 1500]
      quench_medium_selection
        [where medium = "''brine''" and qm = example_media and table = example_table
           and rnd = overflowing]
    by (simp add: example_media_def example_table_def oil_medium_def)
qed

subsection \<open>Running a material comparison\<close>




end
